theory Spec2Isabelle
  imports Complex_Main
begin

section \<open>Random atomic crystals: a model of crystal.py and operations.py\<close>

text \<open>
  Numbers: Python and numpy floats are modelled by \<^typ>\<open>real\<close>, so a result states what the
  program computes in exact arithmetic; rounding is not part of the model. Where the source
  leaves the reals (a division by zero, the root of a negative number) the model has an
  explicit outcome: an \<open>error\<close> where Python raises, \<open>NonFinite\<close> where numpy goes on with
  inf or nan.

  Points and lattice vectors are triples, a lattice is the triple of its rows.
\<close>

type_synonym vec3 = "real \<times> real \<times> real"
type_synonym mat3 = "vec3 \<times> vec3 \<times> vec3"
type_synonym para = "real \<times> real \<times> real \<times> real \<times> real \<times> real"

datatype error =
    ValueError | TypeError | NameError | IndexError | UnboundLocalError
  | NonFinite | NoReturn

subsection \<open>numpy on triples\<close>

fun vadd :: "vec3 \<Rightarrow> vec3 \<Rightarrow> vec3" where
  "vadd (x1, y1, z1) (x2, y2, z2) = (x1 + x2, y1 + y2, z1 + z2)"

fun vsub :: "vec3 \<Rightarrow> vec3 \<Rightarrow> vec3" where
  "vsub (x1, y1, z1) (x2, y2, z2) = (x1 - x2, y1 - y2, z1 - z2)"

fun vdot :: "vec3 \<Rightarrow> vec3 \<Rightarrow> real" where
  "vdot (x1, y1, z1) (x2, y2, z2) = x1 * x2 + y1 * y2 + z1 * z2"

text \<open>\<open>np.linalg.norm\<close> of a vector, and one row of \<open>cdist\<close>.\<close>

fun vnorm :: "vec3 \<Rightarrow> real" where
  "vnorm (x, y, z) = sqrt (x\<^sup>2 + y\<^sup>2 + z\<^sup>2)"

definition euclid :: "vec3 \<Rightarrow> vec3 \<Rightarrow> real" where
  "euclid p q = vnorm (vsub p q)"

text \<open>\<open>np.dot(v, lattice)\<close>: a row vector times the matrix.\<close>

fun vecmat :: "vec3 \<Rightarrow> mat3 \<Rightarrow> vec3" where
  "vecmat (x, y, z) ((a1, a2, a3), (b1, b2, b3), (c1, c2, c3)) =
     (x * a1 + y * b1 + z * c1, x * a2 + y * b2 + z * c2, x * a3 + y * b3 + z * c3)"

text \<open>\<open>np.linalg.det\<close> of a 3x3 matrix.\<close>

fun det3 :: "mat3 \<Rightarrow> real" where
  "det3 ((a1, a2, a3), (b1, b2, b3), (c1, c2, c3)) =
     a1 * (b2 * c3 - b3 * c2) - a2 * (b1 * c3 - b3 * c1) + a3 * (b1 * c2 - b2 * c1)"

text \<open>\<open>np.round\<close> rounds a half to the even neighbour; \<open>np.floor\<close> is \<^const>\<open>floor\<close>.\<close>

definition np_round :: "real \<Rightarrow> real" where
  "np_round x =
     (if frac x = 1 / 2 then (if even \<lfloor>x\<rfloor> then of_int \<lfloor>x\<rfloor> else of_int \<lceil>x\<rceil>)
      else of_int (round x))"

fun vround :: "vec3 \<Rightarrow> vec3" where
  "vround (x, y, z) = (np_round x, np_round y, np_round z)"

text \<open>\<open>coords -= np.floor(coords)\<close>, one point of it.\<close>

fun wrap :: "vec3 \<Rightarrow> vec3" where
  "wrap (x, y, z) = (x - of_int \<lfloor>x\<rfloor>, y - of_int \<lfloor>y\<rfloor>, z - of_int \<lfloor>z\<rfloor>)"

text \<open>\<open>numpy.isclose(a, b)\<close> with its defaults rtol = 1e-5, atol = 1e-8.\<close>

definition isclose :: "real \<Rightarrow> real \<Rightarrow> bool" where
  "isclose a b \<longleftrightarrow> \<bar>a - b\<bar> \<le> 1 / 10 ^ 8 + 1 / 10 ^ 5 * \<bar>b\<bar>"

subsection \<open>Periodic images and distances\<close>

text \<open>
  \<open>create_matrix(PBC)\<close>: the 27 offsets of the neighbouring cells, or 9 when \<open>PBC\<close> names
  the axis (1, 2 or 3) that is not periodic. \<open>None\<close> is Python's \<open>None\<close>.
\<close>

definition create_matrix :: "nat option \<Rightarrow> vec3 list" where
  "create_matrix PBC =
     (let i_list = (if PBC = Some 1 then [0] else [-1, 0, 1]);
          j_list = (if PBC = Some 2 then [0] else [-1, 0, 1]);
          k_list = (if PBC = Some 3 then [0] else [-1, 0, 1])
      in concat (map (\<lambda>i. concat (map (\<lambda>j. map (\<lambda>k. (i, j, k)) k_list) j_list)) i_list))"

text \<open>
  \<open>distance(xyz, lattice, PBC)\<close>: the shortest image of a fractional difference vector.
  \<open>cdist(matrix, [[0,0,0]])\<close> is the list of the norms.
\<close>

definition distance :: "vec3 \<Rightarrow> mat3 \<Rightarrow> nat option \<Rightarrow> real" where
  "distance xyz lattice PBC =
     (let xyz = vsub xyz (vround xyz);
          matrix = map (\<lambda>m. vadd m xyz) (create_matrix PBC);
          matrix = map (\<lambda>m. vecmat m lattice) matrix
      in min_list (map vnorm matrix))"

text \<open>
  \<open>check_distance\<close>. \<open>radius\<close> stands for \<open>Element(symbol).covalent_radius\<close>, a table of
  the element database. The candidate is replicated over the images and multiplied with the
  lattice before \<open>coord1\<close> is looked at: \<open>np.array\<close> of no points has shape (0,), and its
  \<open>np.dot\<close> with a 3x3 lattice raises ValueError. So does \<open>np.min\<close> over no distances, when
  a group of \<open>coord1\<close> holds no point.
\<close>

fun check_groups ::
  "('sp \<Rightarrow> real) \<Rightarrow> (vec3 list \<times> 'sp) list \<Rightarrow> vec3 list \<Rightarrow> 'sp \<Rightarrow> mat3 \<Rightarrow> real
     \<Rightarrow> error + bool" where
  "check_groups radius [] coord2 specie2 lattice d_factor = Inr True"
| "check_groups radius ((coord, element) # rest) coord2 specie2 lattice d_factor =
     (let coord = map (\<lambda>v. vecmat v lattice) coord in
      if coord = [] then Inl ValueError
      else
        let d_min = min_list (concat (map (\<lambda>p. map (\<lambda>q. euclid p q) coord2) coord));
            tol = d_factor * (1 / 2) * (radius element + radius specie2)
        in if d_min < tol then Inr False
           else check_groups radius rest coord2 specie2 lattice d_factor)"

definition check_distance ::
  "('sp \<Rightarrow> real) \<Rightarrow> vec3 list list \<Rightarrow> vec3 list \<Rightarrow> 'sp list \<Rightarrow> 'sp \<Rightarrow> mat3
     \<Rightarrow> nat option \<Rightarrow> real \<Rightarrow> error + bool" where
  "check_distance radius coord1 coord2 specie1 specie2 lattice PBC d_factor =
     (let matrix = create_matrix PBC;
          coord2s = concat (map (\<lambda>coord. map (\<lambda>m. vadd coord m) matrix) coord2)
      in if coord2s = [] then Inl ValueError
         else
           let coord2 = map (\<lambda>v. vecmat v lattice) coord2s
           in if length coord1 > 0
              then check_groups radius (zip coord1 specie1) coord2 specie2 lattice d_factor
              else Inr True)"

subsection \<open>Cell parameters and lattice matrices\<close>

text \<open>
  \<open>para2matrix(cell_para)\<close> with its defaults (radians, format 'lower'), as every caller
  uses it. \<open>math.sqrt\<close> raises ValueError on a negative number; with \<open>sin_gamma = 0\<close> numpy
  divides to inf or nan and no real matrix results.
\<close>

definition para2matrix :: "para \<Rightarrow> error + mat3" where
  "para2matrix cell_para =
     (case cell_para of (a, b, c, alpha, beta, gamma) \<Rightarrow>
        let cos_alpha = cos alpha; cos_beta = cos beta; cos_gamma = cos gamma;
            sin_gamma = sin gamma
        in if sin_gamma = 0 then Inl NonFinite
           else
             let c1 = c * cos_beta;
                 c2 = (c * (cos_alpha - cos_beta * cos_gamma)) / sin_gamma
             in if c\<^sup>2 - c1\<^sup>2 - c2\<^sup>2 < 0 then Inl ValueError
                else Inr ((a, 0, 0),
                          (b * cos_gamma, b * sin_gamma, 0),
                          (c1, c2, sqrt (c\<^sup>2 - c1\<^sup>2 - c2\<^sup>2))))"

text \<open>
  \<open>angle(v1, v2)\<close> of operations.py. The two shortcuts compare the dot product itself,
  not the cosine, with 1 and -1. \<open>math.acos\<close> raises ValueError outside [-1, 1]; a zero
  norm makes the quotient nan.
\<close>

definition angle :: "vec3 \<Rightarrow> vec3 \<Rightarrow> error + real" where
  "angle v1 v2 =
     (let dot = vdot v1 v2 in
      if isclose dot 1 then Inr 0
      else if isclose dot (- 1) then Inr pi
      else if vnorm v1 * vnorm v2 = 0 then Inl NonFinite
      else if \<bar>dot / (vnorm v1 * vnorm v2)\<bar> > 1 then Inl ValueError
      else Inr (arccos (dot / (vnorm v1 * vnorm v2))))"

text \<open>\<open>matrix2para(matrix)\<close> with its default (radians).\<close>

definition matrix2para :: "mat3 \<Rightarrow> error + para" where
  "matrix2para matrix =
     (case matrix of (m0, m1, m2) \<Rightarrow>
        (case angle m1 m2 of Inl e \<Rightarrow> Inl e | Inr alpha \<Rightarrow>
        (case angle m0 m2 of Inl e \<Rightarrow> Inl e | Inr beta \<Rightarrow>
        (case angle m0 m1 of Inl e \<Rightarrow> Inl e | Inr gamma \<Rightarrow>
           Inr (vnorm m0, vnorm m1, vnorm m2, alpha, beta, gamma)))))"

subsection \<open>The lattice sampler\<close>

text \<open>
  Random draws are inputs of the model. A rejection loop (\<open>while True\<close> in \<open>gaussian\<close>,
  \<open>while determinant == 0\<close> in \<open>random_shear_matrix\<close>) reads a list of draws and ends at the
  first one it keeps; a list it uses up stands for a run that has not returned (\<open>NoReturn\<close>).
\<close>

text \<open>\<open>gaussian(min, max)\<close>: the draws are the values of \<open>np.random.normal\<close>.\<close>

fun gaussian :: "real \<Rightarrow> real \<Rightarrow> real list \<Rightarrow> error + real" where
  "gaussian lo hi [] = Inl NoReturn"
| "gaussian lo hi (x # xs) = (if x > lo \<and> x < hi then Inr x else gaussian lo hi xs)"

text \<open>\<open>random_shear_matrix(width)\<close>, not unitary: each draw is the triple a, b, c.\<close>

fun random_shear_matrix :: "vec3 list \<Rightarrow> error + mat3" where
  "random_shear_matrix [] = Inl NoReturn"
| "random_shear_matrix ((a, b, c) # rest) =
     (let mat = ((1, a, b), (a, 1, c), (b, c, 1)) in
      if det3 mat = 0 then random_shear_matrix rest else Inr mat)"

text \<open>\<open>random_vector()\<close>: the exponentials of three normal draws.\<close>

fun random_vector :: "vec3 \<Rightarrow> vec3" where
  "random_vector (n0, n1, n2) = (exp n0, exp n1, exp n2)"

text \<open>The draws of one attempt of the sampler.\<close>

record lattice_draw =
  shear_draws :: "vec3 list"
  vector_draw :: vec3
  gauss_draws :: "real list"

text \<open>\<open>np.cbrt\<close> is the real cube root, also of a negative number.\<close>

definition cbrt :: "real \<Rightarrow> real" where
  "cbrt x = root 3 x"

text \<open>
  The body of the loop of \<open>generate_lattice\<close> up to the acceptance test: the six parameters
  of one attempt, by crystal family. \<open>None\<close> stands for parameters that are inf or nan in
  numpy (a division by zero, a fractional power of a negative volume); every such attempt
  fails the test \<open>a < maxvec\<close> or \<open>a > minvec\<close> below and is rejected.
\<close>

definition scaled_abc :: "vec3 \<Rightarrow> real \<Rightarrow> real \<times> real \<times> real" where
  "scaled_abc vec abc =
     (case vec of (v0, v1, v2) \<Rightarrow>
        let xyz = v0 * v1 * v2
        in (v0 * cbrt abc / cbrt xyz, v1 * cbrt abc / cbrt xyz, v2 * cbrt abc / cbrt xyz))"

definition sample_cell ::
  "nat \<Rightarrow> real \<Rightarrow> real \<Rightarrow> real \<Rightarrow> lattice_draw \<Rightarrow> error + para option" where
  "sample_cell sg volume minangle maxangle d =
     (if sg \<le> 2 then
        (case random_shear_matrix (shear_draws d) of Inl e \<Rightarrow> Inl e | Inr mat \<Rightarrow>
         (case matrix2para mat of Inl e \<Rightarrow> Inl e | Inr (a, b, c, alpha, beta, gamma) \<Rightarrow>
            let r = 1 - (cos alpha)\<^sup>2 - (cos beta)\<^sup>2 - (cos gamma)\<^sup>2
                      + 2 * (cos alpha * cos beta * cos gamma)
            in if r < 0 then Inl ValueError
               else
                 let x = sqrt r; vec = random_vector (vector_draw d)
                 in if x = 0 then Inr None
                    else (case scaled_abc vec (volume / x) of (a, b, c) \<Rightarrow>
                            Inr (Some (a, b, c, alpha, beta, gamma)))))
      else if sg \<le> 15 then
        (case gaussian minangle maxangle (gauss_draws d) of Inl e \<Rightarrow> Inl e | Inr beta \<Rightarrow>
           let x = sin beta; vec = random_vector (vector_draw d)
           in if x = 0 then Inr None
              else (case scaled_abc vec (volume / x) of (a, b, c) \<Rightarrow>
                      Inr (Some (a, b, c, pi / 2, beta, pi / 2))))
      else if sg \<le> 74 then
        (let x = 1; vec = random_vector (vector_draw d)
         in (case scaled_abc vec (volume / x) of (a, b, c) \<Rightarrow>
               Inr (Some (a, b, c, pi / 2, pi / 2, pi / 2))))
      else if sg \<le> 194 then
        (let gamma = (if sg \<le> 142 then pi / 2 else pi / 3 * 2);
             x = (if sg \<le> 142 then 1 else sqrt 3 / 2)
         in (case random_vector (vector_draw d) of (v0, v1, v2) \<Rightarrow>
               let c = v2 / (v0 * v1) * cbrt (volume / x)
               in if c = 0 then (if volume / x < 0 then Inl ValueError else Inr None)
                  else if (volume / x) / c < 0 then Inl ValueError
                  else
                    let a = sqrt ((volume / x) / c); b = a
                    in Inr (Some (a, b, c, pi / 2, pi / 2, gamma))))
      else
        (if volume < 0 then Inr None
         else let s = root 3 volume in Inr (Some (s, s, s, pi / 2, pi / 2, pi / 2))))"

text \<open>
  A quotient as numpy computes it: a division by zero gives inf, -inf or nan, and a
  comparison with nan is false.
\<close>

datatype npfloat = Fin real | PosInf | NegInf | NaN

definition np_div :: "real \<Rightarrow> real \<Rightarrow> npfloat" where
  "np_div x y =
     (if y \<noteq> 0 then Fin (x / y) else if x > 0 then PosInf else if x < 0 then NegInf else NaN)"

fun np_less :: "npfloat \<Rightarrow> npfloat \<Rightarrow> bool" where
  "np_less (Fin x) (Fin y) = (x < y)"
| "np_less (Fin x) PosInf = True"
| "np_less NegInf (Fin y) = True"
| "np_less NegInf PosInf = True"
| "np_less _ _ = False"

text \<open>The acceptance test of \<open>generate_lattice\<close>, in the order of the source.\<close>

definition accepted :: "real \<Rightarrow> real \<Rightarrow> real \<Rightarrow> para \<Rightarrow> bool" where
  "accepted minvec minangle max_ratio p =
     (case p of (a, b, c, alpha, beta, gamma) \<Rightarrow>
        let maxangle = pi - minangle;
            maxvec = np_div (a * b * c) (minvec\<^sup>2)
        in if np_less (Fin minvec) maxvec then
             let smallvec = min (a * cos (max beta gamma))
                              (min (b * cos (max alpha gamma)) (c * cos (max alpha beta)))
             in a > minvec \<and> b > minvec \<and> c > minvec
                \<and> np_less (Fin a) maxvec \<and> np_less (Fin b) maxvec \<and> np_less (Fin c) maxvec
                \<and> smallvec < minvec
                \<and> alpha > minangle \<and> beta > minangle \<and> gamma > minangle
                \<and> alpha < maxangle \<and> beta < maxangle \<and> gamma < maxangle
                \<and> np_less (np_div a b) (Fin max_ratio) \<and> np_less (np_div a c) (Fin max_ratio)
                \<and> np_less (np_div b c) (Fin max_ratio) \<and> np_less (np_div b a) (Fin max_ratio)
                \<and> np_less (np_div c a) (Fin max_ratio) \<and> np_less (np_div c b) (Fin max_ratio)
           else False)"

text \<open>
  \<open>generate_lattice(sg, volume, minvec, minangle, max_ratio, maxattempts)\<close>: attempt \<open>n\<close>
  reads the draws \<open>draws n\<close>. The result \<open>None\<close> is the source's bare \<open>return\<close> after its
  error message, which names \<open>n\<close>: with \<open>maxattempts = 0\<close> the loop never binds \<open>n\<close> and the
  message raises UnboundLocalError.
\<close>

fun lattice_attempts ::
  "nat \<Rightarrow> real \<Rightarrow> real \<Rightarrow> real \<Rightarrow> real \<Rightarrow> (nat \<Rightarrow> lattice_draw) \<Rightarrow> nat \<Rightarrow> nat
     \<Rightarrow> error + para option" where
  "lattice_attempts sg volume minvec minangle max_ratio draws n 0 = Inr None"
| "lattice_attempts sg volume minvec minangle max_ratio draws n (Suc k) =
     (case sample_cell sg volume minangle (pi - minangle) (draws n) of
        Inl e \<Rightarrow> Inl e
      | Inr None \<Rightarrow> lattice_attempts sg volume minvec minangle max_ratio draws (Suc n) k
      | Inr (Some p) \<Rightarrow>
          if accepted minvec minangle max_ratio p then Inr (Some p)
          else lattice_attempts sg volume minvec minangle max_ratio draws (Suc n) k)"

definition generate_lattice ::
  "nat \<Rightarrow> real \<Rightarrow> real \<Rightarrow> real \<Rightarrow> real \<Rightarrow> nat \<Rightarrow> (nat \<Rightarrow> lattice_draw)
     \<Rightarrow> error + para option" where
  "generate_lattice sg volume minvec minangle max_ratio maxattempts draws =
     (if maxattempts = 0 then Inl UnboundLocalError
      else lattice_attempts sg volume minvec minangle max_ratio draws 0 maxattempts)"

subsection \<open>Symmetry operations and Wyckoff positions\<close>

text \<open>
  A symmetry operation (pymatgen's \<open>SymmOp\<close>) is a rotation matrix and a translation;
  \<open>op.operate(point)\<close> applies it. A Wyckoff position is the list of its operations, its
  multiplicity their number. The generator holds the positions of a space group \<^emph>\<open>organized\<close>:
  a list of groups, each the positions of one multiplicity, the general position first.
\<close>

record symmop =
  rotation_matrix :: mat3
  translation_vector :: vec3

type_synonym wyckoff_position = "symmop list"

fun matvec :: "mat3 \<Rightarrow> vec3 \<Rightarrow> vec3" where
  "matvec (r0, r1, r2) p = (vdot r0 p, vdot r1 p, vdot r2 p)"

definition operate :: "symmop \<Rightarrow> vec3 \<Rightarrow> vec3" where
  "operate op point = vadd (matvec (rotation_matrix op) point) (translation_vector op)"

text \<open>
  The grouping loop of \<open>get_wyckoffs(sg, organized=True)\<close>: a new group starts where the
  multiplicity changes. \<open>wyckoffs[0]\<close> raises IndexError on an empty table.
\<close>

fun organize_loop ::
  "'a list list \<Rightarrow> nat \<Rightarrow> 'a list list list \<Rightarrow> 'a list list list" where
  "organize_loop [] old wyckoffs_organized = wyckoffs_organized"
| "organize_loop (wp # rest) old wyckoffs_organized =
     (let mult = length wp in
      if mult \<noteq> old
      then organize_loop rest mult (wyckoffs_organized @ [[wp]])
      else organize_loop rest old
             (butlast wyckoffs_organized @ [last wyckoffs_organized @ [wp]]))"

definition organize :: "'a list list \<Rightarrow> error + 'a list list list" where
  "organize wyckoffs =
     (case wyckoffs of
        [] \<Rightarrow> Inl IndexError
      | w0 # _ \<Rightarrow> Inr (organize_loop wyckoffs (length w0) [[]]))"

text \<open>What the grouping produces: no group is empty and a group has one multiplicity.\<close>

definition organized :: "'a list list list \<Rightarrow> bool" where
  "organized wyckoffs \<longleftrightarrow>
     list_all (\<lambda>g. g \<noteq> [] \<and> list_all (\<lambda>w. length w = length (hd g)) g) wyckoffs"

subsection \<open>choose_wyckoff\<close>

text \<open>
  \<open>random.choice(seq)\<close>: the draw \<open>k\<close> selects the element; an empty sequence raises
  IndexError.
\<close>

definition random_choice :: "nat \<Rightarrow> 'a list \<Rightarrow> error + 'a" where
  "random_choice k xs = (if xs = [] then Inl IndexError else Inr (xs ! (k mod length xs)))"

text \<open>
  The two loops of \<open>choose_wyckoff\<close>: the first group that fits, and the positions of all
  groups that fit. A group is judged by its first position, \<open>len(wyckoff[0])\<close>.
\<close>

fun first_fit :: "'a list list list \<Rightarrow> int \<Rightarrow> error + 'a list list option" where
  "first_fit [] number = Inr None"
| "first_fit (wyckoff # rest) number =
     (case wyckoff of
        [] \<Rightarrow> Inl IndexError
      | w0 # _ \<Rightarrow> if int (length w0) \<le> number then Inr (Some wyckoff)
                  else first_fit rest number)"

fun all_fits :: "'a list list list \<Rightarrow> int \<Rightarrow> 'a list list \<Rightarrow> error + 'a list list" where
  "all_fits [] number good_wyckoff = Inr good_wyckoff"
| "all_fits (wyckoff # rest) number good_wyckoff =
     (case wyckoff of
        [] \<Rightarrow> Inl IndexError
      | w0 # _ \<Rightarrow> if int (length w0) \<le> number
                  then all_fits rest number (good_wyckoff @ wyckoff)
                  else all_fits rest number good_wyckoff)"

text \<open>
  \<open>choose_wyckoff(wyckoffs, number)\<close>; \<open>u\<close> is the draw of \<open>rand(0,1)\<close>, \<open>k\<close> that of
  \<open>choose\<close>. The result \<open>None\<close> is the source's \<open>False\<close>.
\<close>

definition choose_wyckoff ::
  "'a list list list \<Rightarrow> int \<Rightarrow> real \<Rightarrow> nat \<Rightarrow> error + 'a list option" where
  "choose_wyckoff wyckoffs number u k =
     (if u > 1 / 2 then
        (case first_fit wyckoffs number of
           Inl e \<Rightarrow> Inl e
         | Inr None \<Rightarrow> Inr None
         | Inr (Some wyckoff) \<Rightarrow>
             (case random_choice k wyckoff of Inl e \<Rightarrow> Inl e | Inr w \<Rightarrow> Inr (Some w)))
      else
        (case all_fits wyckoffs number [] of
           Inl e \<Rightarrow> Inl e
         | Inr good_wyckoff \<Rightarrow>
             if length good_wyckoff > 0
             then (case random_choice k good_wyckoff of Inl e \<Rightarrow> Inl e | Inr w \<Rightarrow> Inr (Some w))
             else Inr None))"

subsection \<open>Short distances and connected components\<close>

text \<open>
  \<open>find_short_dist(coor, lattice, tol)\<close>: the pairs \<open>i1 < i2\<close> at a distance of at most
  \<open>tol\<close>, cut down to those within 1e-3 of the shortest, and the graph with an edge in both
  directions for each. \<open>distance\<close> is called without PBC.
\<close>

definition close_pairs :: "vec3 list \<Rightarrow> mat3 \<Rightarrow> real \<Rightarrow> (nat \<times> nat \<times> real) list" where
  "close_pairs coor lattice tol =
     concat (map (\<lambda>i1.
       concat (map (\<lambda>i2.
         let dist = distance (vsub (coor ! i1) (coor ! i2)) lattice None
         in if dist \<le> tol then [(i1, i2, dist)] else [])
       [i1 + 1 ..< length coor]))
     [0 ..< length coor - 1])"

fun add_edge :: "nat \<times> nat \<times> real \<Rightarrow> nat list list \<Rightarrow> nat list list" where
  "add_edge (pair0, pair1, d) graph =
     (let graph = graph[pair0 := graph ! pair0 @ [pair1]]
      in graph[pair1 := graph ! pair1 @ [pair0]])"

definition find_short_dist ::
  "vec3 list \<Rightarrow> mat3 \<Rightarrow> real \<Rightarrow> (nat \<times> nat \<times> real) list \<times> nat list list" where
  "find_short_dist coor lattice tol =
     (let pairs = close_pairs coor lattice tol;
          graph = replicate (length coor) []
      in if length pairs > 0 then
           let d_min = min_list (map (\<lambda>(i1, i2, dist). dist) pairs) + 1 / 1000;
               pairs = filter (\<lambda>(i1, i2, dist). dist \<le> d_min) pairs
           in (pairs, fold add_edge pairs graph)
         else (pairs, graph))"

text \<open>
  \<open>add_neighbors(el)\<close> of \<open>connected_components\<close>, with the call stack of the recursion
  made explicit: a frame is the rest of the neighbour list a call still has to go through,
  \<open>seen\<close> is the one list all calls append to. An index past the end of the graph raises
  IndexError.
\<close>

function add_neighbors_from ::
  "nat list list \<Rightarrow> nat list list \<Rightarrow> nat list \<Rightarrow> error + nat list" where
  "add_neighbors_from graph [] seen = Inr seen"
| "add_neighbors_from graph ([] # frames) seen = add_neighbors_from graph frames seen"
| "add_neighbors_from graph ((x # xs) # frames) seen =
     (if x \<in> set seen then add_neighbors_from graph (xs # frames) seen
      else if x < length graph
      then add_neighbors_from graph ((graph ! x) # xs # frames) (seen @ [x])
      else Inl IndexError)"
  by pat_completeness auto
termination
proof (relation "measures [\<lambda>(graph, frames, seen). length graph - card (set seen \<inter> {..<length graph}),
                           \<lambda>(graph, frames, seen). sum_list (map (\<lambda>f. Suc (length f)) frames)]",
       goal_cases)
  case 1
  show ?case by simp
next
  case (2 graph frames seen)
  show ?case by simp
next
  case (3 graph x xs frames seen)
  show ?case by simp
next
  case (4 graph x xs frames seen)
  have fin: "finite (set seen \<inter> {..<length graph})" by simp
  have sub: "insert x (set seen \<inter> {..<length graph}) \<subseteq> {..<length graph}"
    using 4 by auto
  have "card (insert x (set seen \<inter> {..<length graph})) \<le> length graph"
    using card_mono [OF _ sub] by simp
  moreover have "card (insert x (set seen \<inter> {..<length graph}))
                   = Suc (card (set seen \<inter> {..<length graph}))"
    using 4 fin by simp
  moreover have "set (seen @ [x]) \<inter> {..<length graph} = insert x (set seen \<inter> {..<length graph})"
    using 4 by auto
  ultimately show ?case by simp
qed

definition add_neighbors :: "nat list list \<Rightarrow> nat \<Rightarrow> error + nat list" where
  "add_neighbors graph el =
     (if el < length graph then add_neighbors_from graph [graph ! el] [el]
      else Inl IndexError)"

text \<open>
  The \<open>while unseen != []\<close> loop of \<open>connected_components\<close>: \<open>unseen.pop()\<close> takes the
  last index, and every index of its component is removed from \<open>unseen\<close>.
\<close>

lemma length_fold_remove1: "length (fold remove1 ys xs) \<le> length xs"
proof (induction ys arbitrary: xs)
  case Nil
  show ?case by simp
next
  case (Cons y ys)
  have "length (fold remove1 ys (remove1 y xs)) \<le> length (remove1 y xs)"
    by (rule Cons.IH)
  also have "\<dots> \<le> length xs"
    by (simp add: length_remove1)
  finally show ?case by simp
qed

function components_loop ::
  "nat list list \<Rightarrow> nat list \<Rightarrow> nat list list \<Rightarrow> error + nat list list" where
  "components_loop graph unseen sets =
     (if unseen = [] then Inr sets
      else
        let x = last unseen; unseen = butlast unseen
        in (case add_neighbors graph x of
              Inl e \<Rightarrow> Inl e
            | Inr component \<Rightarrow>
                components_loop graph (fold remove1 component unseen) (sets @ [component])))"
  by pat_completeness auto
termination
proof (relation "measure (\<lambda>(graph, unseen, sets). length unseen)", goal_cases)
  case 1
  show ?case by simp
next
  case (2 graph unseen sets x unseen' component)
  have "length (fold remove1 component (butlast unseen)) \<le> length (butlast unseen)"
    by (rule length_fold_remove1)
  also have "\<dots> < length unseen" using 2 by simp
  finally show ?case using 2 by simp
qed

declare components_loop.simps [simp del]

definition connected_components :: "nat list list \<Rightarrow> error + nat list list" where
  "connected_components graph = components_loop graph [0 ..< length graph] []"
subsection \<open>Merging an orbit\<close>

text \<open>
  \<open>np.argmin\<close>: the first index of the least entry. \<open>xyzs.mean(0)\<close>: the mean of each
  coordinate.
\<close>

definition argmin :: "real list \<Rightarrow> nat" where
  "argmin ds = length (takeWhile (\<lambda>d. d \<noteq> min_list ds) ds)"

definition mean0 :: "vec3 list \<Rightarrow> vec3" where
  "mean0 xyzs =
     (let n = real (length xyzs)
      in (sum_list (map fst xyzs) / n,
          sum_list (map (\<lambda>p. fst (snd p)) xyzs) / n,
          sum_list (map (\<lambda>p. snd (snd p)) xyzs) / n))"

text \<open>
  The inner loop of \<open>get_center\<close> over \<open>atom2\<close>: among the images of \<open>atom1\<close> seen from
  the atoms before it, the offset of the nearest one below the distance 10.
\<close>

definition nearest_image ::
  "vec3 list \<Rightarrow> mat3 \<Rightarrow> vec3 list \<Rightarrow> nat \<Rightarrow> nat \<Rightarrow> real \<times> vec3 option
     \<Rightarrow> real \<times> vec3 option" where
  "nearest_image xyzs lattice matrix0 atom1 atom2 st =
     (case st of (dist_min, matrix_min) \<Rightarrow>
        let matrix = map (\<lambda>m. vadd m (vsub (xyzs ! atom1) (xyzs ! atom2))) matrix0;
            matrix = map (\<lambda>m. vecmat m lattice) matrix;
            dists = map vnorm matrix
        in if min_list dists < dist_min
           then (min_list dists, Some (matrix0 ! argmin dists))
           else (dist_min, matrix_min))"

text \<open>
  The outer loop over \<open>atom1\<close>. \<open>matrix_min\<close> is a variable of the function: it keeps its
  value from one atom to the next, and reading it before any image was near enough to bind
  it raises UnboundLocalError.
\<close>

fun shift_atoms ::
  "mat3 \<Rightarrow> vec3 list \<Rightarrow> nat list \<Rightarrow> vec3 list \<Rightarrow> vec3 option \<Rightarrow> error + vec3 list" where
  "shift_atoms lattice matrix0 [] xyzs matrix_min = Inr xyzs"
| "shift_atoms lattice matrix0 (atom1 # rest) xyzs matrix_min =
     (case fold (nearest_image xyzs lattice matrix0 atom1) [0 ..< atom1] (10, matrix_min) of
        (dist_min, None) \<Rightarrow> Inl UnboundLocalError
      | (dist_min, Some m) \<Rightarrow>
          shift_atoms lattice matrix0 rest (xyzs[atom1 := vadd (xyzs ! atom1) m]) (Some m))"

text \<open>
  The end of \<open>get_center\<close> reads \<open>center[PBC-1]\<close>: with \<open>PBC = None\<close> the subtraction
  raises TypeError; 0 indexes the last coordinate, 1 to 3 the three of them, and a larger
  number is out of range.
\<close>

definition center_axis :: "nat option \<Rightarrow> error + nat" where
  "center_axis PBC =
     (case PBC of
        None \<Rightarrow> Inl TypeError
      | Some p \<Rightarrow> if p = 0 then Inr 2 else if p \<le> 3 then Inr (p - 1) else Inl IndexError)"

fun vget :: "vec3 \<Rightarrow> nat \<Rightarrow> real" where
  "vget (x, y, z) i = (if i = 0 then x else if i = 1 then y else z)"

fun vset :: "vec3 \<Rightarrow> nat \<Rightarrow> real \<Rightarrow> vec3" where
  "vset (x, y, z) i v = (if i = 0 then (v, y, z) else if i = 1 then (x, v, z) else (x, y, v))"

definition get_center :: "vec3 list \<Rightarrow> mat3 \<Rightarrow> nat option \<Rightarrow> error + vec3" where
  "get_center xyzs lattice PBC =
     (let matrix0 = create_matrix PBC;
          xyzs = map (\<lambda>p. vsub p (vround p)) xyzs
      in (case shift_atoms lattice matrix0 [1 ..< length xyzs] xyzs None of
            Inl e \<Rightarrow> Inl e
          | Inr xyzs \<Rightarrow>
              let center = mean0 xyzs
              in (case center_axis PBC of
                    Inl e \<Rightarrow> Inl e
                  | Inr i \<Rightarrow>
                      if \<bar>vget center i\<bar> < 1 / 10 ^ 4 then Inr (vset center i (1 / 2))
                      else Inr center)))"

text \<open>The loop \<open>for group in groups: merged.append(get_center(coor[group], ...))\<close>.\<close>

fun centers ::
  "vec3 list \<Rightarrow> mat3 \<Rightarrow> nat option \<Rightarrow> nat list list \<Rightarrow> error + vec3 list" where
  "centers coor lattice PBC [] = Inr []"
| "centers coor lattice PBC (grp # groups) =
     (case get_center (map (\<lambda>i. coor ! i) grp) lattice PBC of
        Inl e \<Rightarrow> Inl e
      | Inr c \<Rightarrow>
          (case centers coor lattice PBC groups of
             Inl e \<Rightarrow> Inl e
           | Inr merged \<Rightarrow> Inr (c # merged)))"

text \<open>\<open>wyckoff[-1][0]\<close>: the first position of the last group.\<close>

definition last_first :: "'a list list \<Rightarrow> error + 'a" where
  "last_first wyckoff =
     (if wyckoff = [] then Inl IndexError
      else (case last wyckoff of [] \<Rightarrow> Inl IndexError | w # _ \<Rightarrow> Inr w))"

text \<open>
  One turn of the \<open>while True\<close> loop of \<open>merge_coordinate\<close>: it returns (\<open>Return\<close>),
  raises, or goes on with the merged orbit (\<open>Merged\<close>).

  \<open>check_wyckoff_position\<close> is a parameter, \<open>cwp points sg\<close>: it reads the symmetry tables
  of the package through pymatgen, and \<open>merge_coordinate\<close> uses its result only, the index
  of the position found or \<open>False\<close> (here \<open>None\<close>).
\<close>

datatype turn = Merged "vec3 list" | Return "vec3 list \<times> nat option" | Raise error

definition merge_turn ::
  "(vec3 list \<Rightarrow> nat \<Rightarrow> error + nat option) \<Rightarrow> vec3 list \<Rightarrow> mat3 \<Rightarrow> 'a list list list
     \<Rightarrow> nat \<Rightarrow> real \<Rightarrow> nat option \<Rightarrow> turn" where
  "merge_turn cwp coor lattice wyckoff sg tol PBC =
     (case find_short_dist coor lattice tol of (pairs, graph) \<Rightarrow>
        if length pairs > 0 then
          (case last_first wyckoff of
             Inl e \<Rightarrow> Raise e
           | Inr w \<Rightarrow>
               if length coor > length w then
                 (case connected_components graph of
                    Inl e \<Rightarrow> Raise e
                  | Inr groups \<Rightarrow>
                      (case centers coor lattice PBC groups of
                         Inl e \<Rightarrow> Raise e
                       | Inr merged \<Rightarrow>
                           (case cwp merged sg of
                              Inl e \<Rightarrow> Raise e
                            | Inr None \<Rightarrow> Return (coor, None)
                            | Inr (Some index) \<Rightarrow> Merged merged)))
               else Return (coor, None))
        else
          (case cwp coor sg of
             Inl e \<Rightarrow> Raise e
           | Inr index \<Rightarrow> Return (coor, index)))"
subsection \<open>Facts about the connected components\<close>

text \<open>
  What the merge loop needs of \<open>connected_components\<close>: a component is closed under the
  edges of the graph, so the two ends of an edge fall into one component, and the loop
  returns fewer components than there are points as soon as the graph has an edge.
\<close>

lemma add_neighbors_from_mono:
  "add_neighbors_from graph frames seen = Inr r \<Longrightarrow>
     set seen \<subseteq> set r \<and> (\<forall>f\<in>set frames. set f \<subseteq> set r)"
proof (induction graph frames seen rule: add_neighbors_from.induct)
  case (1 graph seen)
  then show ?case by simp
next
  case (2 graph frames seen)
  then show ?case by simp
next
  case (3 graph x xs frames seen)
  show ?case
  proof (cases "x \<in> set seen")
    case True
    with 3 have "set seen \<subseteq> set r \<and> (\<forall>f\<in>set (xs # frames). set f \<subseteq> set r)" by simp
    with True show ?thesis by auto
  next
    case False
    with 3(3) have lt: "x < length graph" by (simp split: if_splits)
    with False 3 have "set (seen @ [x]) \<subseteq> set r
        \<and> (\<forall>f\<in>set ((graph ! x) # xs # frames). set f \<subseteq> set r)" by simp
    then show ?thesis by auto
  qed
qed

definition pending :: "nat list list \<Rightarrow> nat list list \<Rightarrow> nat list \<Rightarrow> bool" where
  "pending graph frames seen \<longleftrightarrow>
     (\<forall>u\<in>set seen. \<forall>w\<in>set (graph ! u). w \<in> set seen \<or> (\<exists>f\<in>set frames. w \<in> set f))"

lemma add_neighbors_from_closed:
  "add_neighbors_from graph frames seen = Inr r \<Longrightarrow> pending graph frames seen \<Longrightarrow>
     (\<forall>u\<in>set r. set (graph ! u) \<subseteq> set r)"
proof (induction graph frames seen rule: add_neighbors_from.induct)
  case (1 graph seen)
  then show ?case by (auto simp: pending_def)
next
  case (2 graph frames seen)
  from 2(3) have "pending graph frames seen" by (simp add: pending_def)
  with 2 show ?case by simp
next
  case (3 graph x xs frames seen)
  show ?case
  proof (cases "x \<in> set seen")
    case True
    have "pending graph (xs # frames) seen"
      unfolding pending_def
    proof (intro ballI)
      fix u w assume uw: "u \<in> set seen" "w \<in> set (graph ! u)"
      with 3(4) have "w \<in> set seen \<or> (\<exists>f\<in>set ((x # xs) # frames). w \<in> set f)"
        unfolding pending_def by blast
      with True show "w \<in> set seen \<or> (\<exists>f\<in>set (xs # frames). w \<in> set f)" by auto
    qed
    with 3 True show ?thesis by simp
  next
    case False
    with 3(3) have lt: "x < length graph" by (simp split: if_splits)
    have "pending graph ((graph ! x) # xs # frames) (seen @ [x])"
      unfolding pending_def
    proof (intro ballI)
      fix u w assume uw: "u \<in> set (seen @ [x])" "w \<in> set (graph ! u)"
      show "w \<in> set (seen @ [x]) \<or> (\<exists>f\<in>set ((graph ! x) # xs # frames). w \<in> set f)"
      proof (cases "u = x")
        case True
        with uw show ?thesis by simp
      next
        case False
        with uw have "u \<in> set seen" by simp
        with uw(2) 3(4) have "w \<in> set seen \<or> (\<exists>f\<in>set ((x # xs) # frames). w \<in> set f)"
          unfolding pending_def by blast
        then show ?thesis by auto
      qed
    qed
    with 3 False lt show ?thesis by simp
  qed
qed

definition in_range :: "nat list list \<Rightarrow> bool" where
  "in_range graph \<longleftrightarrow> (\<forall>xs\<in>set graph. \<forall>x\<in>set xs. x < length graph)"

lemma add_neighbors_from_returns:
  "in_range graph \<Longrightarrow> (\<forall>f\<in>set frames. \<forall>x\<in>set f. x < length graph) \<Longrightarrow>
     \<exists>r. add_neighbors_from graph frames seen = Inr r"
proof (induction graph frames seen rule: add_neighbors_from.induct)
  case (1 graph seen)
  show ?case by simp
next
  case (2 graph frames seen)
  then show ?case by simp
next
  case (3 graph x xs frames seen)
  from 3(4) have lt: "x < length graph" by simp
  show ?case
  proof (cases "x \<in> set seen")
    case True
    with 3 show ?thesis by simp
  next
    case False
    have "\<forall>y\<in>set (graph ! x). y < length graph"
      using 3(3) lt unfolding in_range_def by (meson nth_mem)
    with 3(4) have "\<forall>f\<in>set ((graph ! x) # xs # frames). \<forall>y\<in>set f. y < length graph" by simp
    with 3(2) [OF False lt 3(3)] False lt show ?thesis by simp
  qed
qed

lemma add_neighbors_closed:
  assumes "add_neighbors graph el = Inr component"
  shows "el \<in> set component \<and> (\<forall>u\<in>set component. set (graph ! u) \<subseteq> set component)"
proof -
  from assms have lt: "el < length graph"
    and r: "add_neighbors_from graph [graph ! el] [el] = Inr component"
    by (simp_all add: add_neighbors_def split: if_splits)
  have "pending graph [graph ! el] [el]" by (simp add: pending_def)
  with r have "\<forall>u\<in>set component. set (graph ! u) \<subseteq> set component"
    by (rule add_neighbors_from_closed)
  moreover from add_neighbors_from_mono [OF r] have "el \<in> set component" by simp
  ultimately show ?thesis by simp
qed

lemma add_neighbors_returns:
  assumes "in_range graph" "el < length graph"
  shows "\<exists>component. add_neighbors graph el = Inr component"
proof -
  have "\<forall>y\<in>set (graph ! el). y < length graph"
    using assms unfolding in_range_def by (meson nth_mem)
  then have "\<forall>f\<in>set [graph ! el]. \<forall>x\<in>set f. x < length graph" by simp
  from add_neighbors_from_returns [OF assms(1) this, of "[el]"] assms(2)
  show ?thesis by (simp add: add_neighbors_def)
qed

lemma fold_remove1_distinct:
  "distinct xs \<Longrightarrow> distinct (fold remove1 ys xs) \<and> set (fold remove1 ys xs) = set xs - set ys"
proof (induction ys arbitrary: xs)
  case Nil
  then show ?case by simp
next
  case (Cons y ys)
  from Cons.prems have d: "distinct (remove1 y xs)" by simp
  from Cons.prems have s: "set (remove1 y xs) = set xs - {y}" by simp
  from Cons.IH [OF d] s show ?case by auto
qed

lemma set_fold_remove1: "set (fold remove1 ys xs) \<subseteq> set xs"
proof (induction ys arbitrary: xs)
  case Nil
  show ?case by simp
next
  case (Cons y ys)
  have "set (fold remove1 ys (remove1 y xs)) \<subseteq> set (remove1 y xs)" by (rule Cons.IH)
  also have "\<dots> \<subseteq> set xs" by (rule set_remove1_subset)
  finally show ?case by simp
qed

lemma components_loop_unfold:
  "unseen \<noteq> [] \<Longrightarrow> add_neighbors graph (last unseen) = Inr component \<Longrightarrow>
     components_loop graph unseen sets =
       components_loop graph (fold remove1 component (butlast unseen)) (sets @ [component])"
  by (subst components_loop.simps) (simp add: Let_def)

lemma components_loop_Nil: "components_loop graph [] sets = Inr sets"
  by (subst components_loop.simps) simp

lemma components_loop_error:
  "unseen \<noteq> [] \<Longrightarrow> add_neighbors graph (last unseen) = Inl e \<Longrightarrow>
     components_loop graph unseen sets = Inl e"
  by (subst components_loop.simps) (simp add: Let_def)

lemma components_loop_bound:
  "components_loop graph unseen sets = Inr res \<Longrightarrow>
     length res \<le> length sets + length unseen \<and> set sets \<subseteq> set res"
proof (induction graph unseen sets rule: components_loop.induct)
  case (1 graph unseen sets)
  show ?case
  proof (cases "unseen = []")
    case True
    with 1(2) show ?thesis by (simp add: components_loop_Nil)
  next
    case False
    show ?thesis
    proof (cases "add_neighbors graph (last unseen)")
      case (Inl e)
      with False 1(2) show ?thesis by (simp add: components_loop_error)
    next
      case (Inr component)
      let ?unseen = "fold remove1 component (butlast unseen)"
      from 1(2) have r: "components_loop graph ?unseen (sets @ [component]) = Inr res"
        by (simp add: components_loop_unfold [OF False Inr])
      from 1(1) [OF False refl refl Inr r]
      have ih: "length res \<le> length (sets @ [component]) + length ?unseen"
        "set (sets @ [component]) \<subseteq> set res" by simp_all
      have "length ?unseen \<le> length (butlast unseen)" by (rule length_fold_remove1)
      also have "\<dots> = length unseen - 1" by simp
      finally have "length ?unseen + 1 \<le> length unseen" using False by (cases unseen) auto
      with ih show ?thesis by auto
    qed
  qed
qed

lemma components_loop_edge:
  assumes "components_loop graph unseen sets = Inr res"
    and "distinct unseen" "u \<in> set unseen" "v \<in> set unseen" "u \<noteq> v"
    and "v \<in> set (graph ! u)" "u \<in> set (graph ! v)"
  shows "(\<exists>c\<in>set res. u \<in> set c \<and> v \<in> set c) \<and> length res < length sets + length unseen"
  using assms
proof (induction graph unseen sets rule: components_loop.induct)
  case (1 graph unseen sets)
  from 1(4) have ne: "unseen \<noteq> []" by auto
  show ?case
  proof (cases "add_neighbors graph (last unseen)")
    case (Inl e)
    with ne 1(2) show ?thesis by (simp add: components_loop_error)
  next
    case (Inr component)
    let ?unseen = "fold remove1 component (butlast unseen)"
    from 1(2) have r: "components_loop graph ?unseen (sets @ [component]) = Inr res"
      by (simp add: components_loop_unfold [OF ne Inr])
    from add_neighbors_closed [OF Inr]
    have x: "last unseen \<in> set component"
      and closed: "\<And>a. a \<in> set component \<Longrightarrow> set (graph ! a) \<subseteq> set component" by auto
    have db: "distinct (butlast unseen)" using 1(3) by (rule distinct_butlast)
    have sb: "set (butlast unseen) = set unseen - {last unseen}"
    proof -
      have "unseen = butlast unseen @ [last unseen]" using ne by simp
      then have "distinct (butlast unseen @ [last unseen])"
        "set unseen = set (butlast unseen @ [last unseen])" using 1(3) by simp_all
      then show ?thesis by auto
    qed
    from fold_remove1_distinct [OF db, of component]
    have du: "distinct ?unseen" and su: "set ?unseen = set unseen - set component"
      using sb x by auto
    from components_loop_bound [OF r]
    have bound: "length res \<le> length sets + 1 + length ?unseen"
      and keep: "component \<in> set res" by auto
    show ?thesis
    proof (cases "u \<in> set component \<or> v \<in> set component")
      case True
      then have uv: "u \<in> set component" "v \<in> set component"
        using closed 1(7,8) by blast+
      have "set ?unseen \<subseteq> set unseen - {u, v}" using su uv by auto
      then have "card (set ?unseen) \<le> card (set unseen - {u, v})"
        by (intro card_mono) auto
      also have "\<dots> = card (set unseen) - 2"
        using 1(4,5,6) by (simp add: card_Diff_subset)
      finally have "length ?unseen \<le> length unseen - 2"
        using du 1(3) by (simp add: distinct_card)
      moreover have "2 \<le> length unseen"
      proof -
        have "card {u, v} \<le> card (set unseen)" using 1(4,5) by (intro card_mono) auto
        then show ?thesis using 1(3,6) by (simp add: distinct_card)
      qed
      ultimately have "length res < length sets + length unseen" using bound by linarith
      with keep uv show ?thesis by blast
    next
      case False
      then have "u \<in> set ?unseen" "v \<in> set ?unseen" using su 1(4,5) by auto
      from 1(1) [OF ne refl refl Inr r du this 1(6,7,8)]
      have ih: "\<exists>c\<in>set res. u \<in> set c \<and> v \<in> set c"
        "length res < length (sets @ [component]) + length ?unseen" by simp_all
      have "length ?unseen \<le> length (butlast unseen)" by (rule length_fold_remove1)
      then have "length ?unseen + 1 \<le> length unseen" using ne by (cases unseen) auto
      with ih show ?thesis by auto
    qed
  qed
qed

lemma components_loop_returns:
  "in_range graph \<Longrightarrow> \<forall>x\<in>set unseen. x < length graph \<Longrightarrow>
     \<exists>res. components_loop graph unseen sets = Inr res"
proof (induction graph unseen sets rule: components_loop.induct)
  case (1 graph unseen sets)
  show ?case
  proof (cases "unseen = []")
    case True
    then show ?thesis by (simp add: components_loop_Nil)
  next
    case False
    then have "last unseen < length graph" using 1(3) by simp
    from add_neighbors_returns [OF 1(2) this]
    obtain component where c: "add_neighbors graph (last unseen) = Inr component" by blast
    have "set (fold remove1 component (butlast unseen)) \<subseteq> set unseen"
      using set_fold_remove1 [of component "butlast unseen"] in_set_butlastD by fastforce
    with 1(3) have "\<forall>x\<in>set (fold remove1 component (butlast unseen)). x < length graph" by blast
    from 1(1) [OF False refl refl c 1(2) this]
    show ?thesis by (simp add: components_loop_unfold [OF False c])
  qed
qed

lemma connected_components_edge:
  assumes "in_range graph" "u < length graph" "v < length graph" "u \<noteq> v"
    and "v \<in> set (graph ! u)" "u \<in> set (graph ! v)"
  shows "\<exists>groups. connected_components graph = Inr groups
           \<and> (\<exists>c\<in>set groups. u \<in> set c \<and> v \<in> set c) \<and> length groups < length graph"
proof -
  have "\<forall>x\<in>set [0 ..< length graph]. x < length graph" by simp
  from components_loop_returns [OF assms(1) this, of "[]"]
  obtain groups where g: "components_loop graph [0 ..< length graph] [] = Inr groups" by blast
  from components_loop_edge [OF g, of u v] assms
  have "(\<exists>c\<in>set groups. u \<in> set c \<and> v \<in> set c) \<and> length groups < length graph" by simp
  with g show ?thesis by (simp add: connected_components_def)
qed

lemma close_pairs_range:
  "(i1, i2, d) \<in> set (close_pairs coor lattice tol) \<Longrightarrow> i1 < i2 \<and> i2 < length coor"
  by (auto simp: close_pairs_def Let_def split: if_splits)

lemma add_edge_facts:
  assumes "i < length graph" "j < length graph"
  shows "length (add_edge (i, j, d) graph) = length graph"
    and "j \<in> set (add_edge (i, j, d) graph ! i)"
    and "i \<in> set (add_edge (i, j, d) graph ! j)"
    and "k < length graph \<Longrightarrow> set (graph ! k) \<subseteq> set (add_edge (i, j, d) graph ! k)"
    and "k < length graph \<Longrightarrow> set (add_edge (i, j, d) graph ! k) \<subseteq> set (graph ! k) \<union> {i, j}"
  using assms by (auto simp: Let_def nth_list_update split: if_splits)

lemma fold_add_edge:
  assumes "\<forall>(i, j, d)\<in>set pairs. i < length graph \<and> j < length graph" "in_range graph"
  shows "length (fold add_edge pairs graph) = length graph
       \<and> in_range (fold add_edge pairs graph)
       \<and> (\<forall>k<length graph. set (graph ! k) \<subseteq> set (fold add_edge pairs graph ! k))
       \<and> (\<forall>(i, j, d)\<in>set pairs. j \<in> set (fold add_edge pairs graph ! i)
                                  \<and> i \<in> set (fold add_edge pairs graph ! j))"
  using assms
proof (induction pairs arbitrary: graph)
  case Nil
  then show ?case by simp
next
  case (Cons p pairs)
  obtain i j d where p: "p = (i, j, d)" by (cases p)
  from Cons.prems(1) p have ij: "i < length graph" "j < length graph" by auto
  let ?g = "add_edge (i, j, d) graph"
  note f = add_edge_facts [OF ij, where d = d]
  have len: "length ?g = length graph" by (rule f(1))
  have range: "in_range ?g"
    unfolding in_range_def
  proof (intro ballI)
    fix xs x assume "xs \<in> set ?g" "x \<in> set xs"
    then obtain k where k: "k < length ?g" "xs = ?g ! k" by (auto simp: in_set_conv_nth)
    with len have kl: "k < length graph" by simp
    from f(5) [OF kl] \<open>x \<in> set xs\<close> k have "x \<in> set (graph ! k) \<union> {i, j}" by blast
    moreover have "\<forall>y\<in>set (graph ! k). y < length graph"
      using Cons.prems(2) kl unfolding in_range_def by (meson nth_mem)
    ultimately show "x < length ?g" using ij len by auto
  qed
  have rest: "\<forall>(i, j, d)\<in>set pairs. i < length ?g \<and> j < length ?g"
    using Cons.prems(1) len by auto
  from Cons.IH [OF rest range]
  have ih: "length (fold add_edge pairs ?g) = length ?g"
    "in_range (fold add_edge pairs ?g)"
    "\<forall>k<length ?g. set (?g ! k) \<subseteq> set (fold add_edge pairs ?g ! k)"
    "\<forall>(i, j, d)\<in>set pairs. j \<in> set (fold add_edge pairs ?g ! i)
                                  \<and> i \<in> set (fold add_edge pairs ?g ! j)"
    by simp_all
  have keep: "\<forall>k<length graph. set (graph ! k) \<subseteq> set (fold add_edge pairs ?g ! k)"
  proof (intro allI impI)
    fix k assume k: "k < length graph"
    from f(4) [OF k] ih(3) k len show "set (graph ! k) \<subseteq> set (fold add_edge pairs ?g ! k)"
      by force
  qed
  have here: "j \<in> set (fold add_edge pairs ?g ! i) \<and> i \<in> set (fold add_edge pairs ?g ! j)"
    using f(2,3) ih(3) ij len by force
  show ?case
    using ih(1,2,4) len keep here by (simp add: p)
qed

lemma in_range_replicate: "in_range (replicate n [])"
  by (simp add: in_range_def)

lemma min_list_member: "xs \<noteq> [] \<Longrightarrow> min_list xs \<in> set (xs :: real list)"
  by (simp add: min_list_Min)

lemma find_short_dist_graph:
  assumes "find_short_dist coor lattice tol = (pairs, graph)"
  shows "length graph = length coor \<and> in_range graph
       \<and> (pairs \<noteq> [] \<longrightarrow>
            (\<exists>u v. u < v \<and> v < length coor \<and> v \<in> set (graph ! u) \<and> u \<in> set (graph ! v)))"
proof (cases "close_pairs coor lattice tol = []")
  case True
  with assms have "pairs = []" "graph = replicate (length coor) []"
    by (simp_all add: find_short_dist_def)
  then show ?thesis by (simp add: in_range_replicate)
next
  case False
  define all where "all = close_pairs coor lattice tol"
  define d_min where "d_min = min_list (map (\<lambda>(i1, i2, d). d) all) + 1 / 1000"
  define g0 :: "nat list list" where "g0 = replicate (length coor) []"
  from assms False have pairs: "pairs = filter (\<lambda>(i1, i2, d). d \<le> d_min) all"
    and graph: "graph = fold add_edge pairs g0"
    by (auto simp add: find_short_dist_def Let_def all_def d_min_def g0_def)
  have rng: "\<forall>(i, j, d)\<in>set pairs. i < j \<and> j < length coor"
    unfolding pairs all_def using close_pairs_range by fastforce
  then have rng': "\<forall>(i, j, d)\<in>set pairs. i < length g0 \<and> j < length g0"
    unfolding g0_def by fastforce
  have "in_range g0" unfolding g0_def by (rule in_range_replicate)
  from fold_add_edge [OF rng' this]
  have f: "length graph = length g0" "in_range graph"
    "\<forall>(i, j, d)\<in>set pairs. j \<in> set (graph ! i) \<and> i \<in> set (graph ! j)"
    unfolding graph by simp_all
  have "\<exists>u v. u < v \<and> v < length coor \<and> v \<in> set (graph ! u) \<and> u \<in> set (graph ! v)"
    if "pairs \<noteq> []"
  proof -
    from that obtain p where "p \<in> set pairs" by (cases pairs) auto
    moreover obtain i j d where "p = (i, j, d)" by (cases p)
    ultimately have "(i, j, d) \<in> set pairs" by simp
    with rng f(3) show ?thesis by blast
  qed
  with f(1,2) show ?thesis by (simp add: g0_def)
qed

lemma find_short_dist_pairs:
  assumes "find_short_dist coor lattice tol = (pairs, graph)"
  shows "pairs \<noteq> [] \<longleftrightarrow> close_pairs coor lattice tol \<noteq> []"
proof (cases "close_pairs coor lattice tol = []")
  case True
  with assms show ?thesis by (simp add: find_short_dist_def)
next
  case False
  define all where "all = close_pairs coor lattice tol"
  define ds where "ds = map (\<lambda>(i1, i2, d). d) all"
  from False have "ds \<noteq> []" by (simp add: ds_def all_def)
  then have "min_list ds \<in> set ds" by (rule min_list_member)
  then obtain p where p: "p \<in> set all" "(\<lambda>(i1, i2, d). d) p = min_list ds"
    unfolding ds_def by auto
  then have "(\<lambda>(i1, i2, d). d \<le> min_list ds + 1 / 1000) p"
    by (cases p) auto
  with p(1) have "filter (\<lambda>(i1, i2, d). d \<le> min_list ds + 1 / 1000) all \<noteq> []"
    by (auto simp: filter_empty_conv)
  with assms False show ?thesis
    by (simp add: find_short_dist_def Let_def all_def ds_def)
qed
subsection \<open>The loop of merge_coordinate\<close>

lemma centers_length:
  "centers coor lattice PBC groups = Inr merged \<Longrightarrow> length merged = length groups"
  by (induction groups arbitrary: merged) (auto split: sum.splits)

text \<open>A turn that goes on has merged two points at least: the orbit is shorter.\<close>

lemma merge_turn_shorter:
  assumes "merge_turn cwp coor lattice wyckoff sg tol PBC = Merged merged"
  shows "length merged < length coor"
proof -
  obtain pairs graph where f: "find_short_dist coor lattice tol = (pairs, graph)"
    by (cases "find_short_dist coor lattice tol")
  from assms f obtain groups where ne: "pairs \<noteq> []"
    and g: "connected_components graph = Inr groups"
    and c: "centers coor lattice PBC groups = Inr merged"
    by (auto simp: merge_turn_def split: if_splits sum.splits option.splits)
  from find_short_dist_graph [OF f] ne obtain u v where
      len: "length graph = length coor" and rng: "in_range graph"
    and uv: "u < v" "v < length coor" "v \<in> set (graph ! u)" "u \<in> set (graph ! v)"
    by blast
  from uv(1,2) len have "u < length graph" "v < length graph" "u \<noteq> v" by simp_all
  from connected_components_edge [OF rng this uv(3,4)] g
  have "length groups < length graph" by auto
  with len centers_length [OF c] show ?thesis by simp
qed

text \<open>
  \<open>merge_coordinate(coor, lattice, wyckoff, sg, tol, PBC)\<close>: the loop takes turns until one
  returns or raises. It is a total function: every turn that goes on shortens the orbit.
\<close>

function merge_coordinate ::
  "(vec3 list \<Rightarrow> nat \<Rightarrow> error + nat option) \<Rightarrow> vec3 list \<Rightarrow> mat3 \<Rightarrow> 'a list list list
     \<Rightarrow> nat \<Rightarrow> real \<Rightarrow> nat option \<Rightarrow> error + vec3 list \<times> nat option" where
  "merge_coordinate cwp coor lattice wyckoff sg tol PBC =
     (case merge_turn cwp coor lattice wyckoff sg tol PBC of
        Merged merged \<Rightarrow> merge_coordinate cwp merged lattice wyckoff sg tol PBC
      | Return r \<Rightarrow> Inr r
      | Raise e \<Rightarrow> Inl e)"
  by pat_completeness auto
termination
proof (relation "measure (\<lambda>(cwp, coor, lattice, wyckoff, sg, tol, PBC). length coor)", goal_cases)
  case 1
  show ?case by simp
next
  case (2 cwp coor lattice wyckoff sg tol PBC merged)
  then show ?case by (simp add: merge_turn_shorter)
qed

declare merge_coordinate.simps [simp del]

text \<open>
  The orbit the loop holds after \<open>n\<close> turns that went on, if it gets that far.
\<close>

fun merged_after ::
  "(vec3 list \<Rightarrow> nat \<Rightarrow> error + nat option) \<Rightarrow> mat3 \<Rightarrow> 'a list list list \<Rightarrow> nat \<Rightarrow> real
     \<Rightarrow> nat option \<Rightarrow> nat \<Rightarrow> vec3 list \<Rightarrow> vec3 list option" where
  "merged_after cwp lattice wyckoff sg tol PBC 0 coor = Some coor"
| "merged_after cwp lattice wyckoff sg tol PBC (Suc n) coor =
     (case merge_turn cwp coor lattice wyckoff sg tol PBC of
        Merged merged \<Rightarrow> merged_after cwp lattice wyckoff sg tol PBC n merged
      | Return r \<Rightarrow> None
      | Raise e \<Rightarrow> None)"

text \<open>
  The two ways a turn on an orbit with a close pair returns failure: the orbit has no more
  points than the first position of the last group (the smallest multiplicity of the space
  group), or its merged candidate is not recognized.
\<close>

definition no_way_to_merge :: "'a list list list \<Rightarrow> vec3 list \<Rightarrow> bool" where
  "no_way_to_merge wyckoff coor \<longleftrightarrow>
     (case last_first wyckoff of Inl e \<Rightarrow> False | Inr w \<Rightarrow> length coor \<le> length w)"

definition merged_not_recognized ::
  "(vec3 list \<Rightarrow> nat \<Rightarrow> error + nat option) \<Rightarrow> vec3 list \<Rightarrow> mat3 \<Rightarrow> 'a list list list
     \<Rightarrow> nat \<Rightarrow> real \<Rightarrow> nat option \<Rightarrow> bool" where
  "merged_not_recognized cwp coor lattice wyckoff sg tol PBC \<longleftrightarrow>
     (case last_first wyckoff of
        Inl e \<Rightarrow> False
      | Inr w \<Rightarrow>
          length coor > length w \<and>
          (case connected_components (snd (find_short_dist coor lattice tol)) of
             Inl e \<Rightarrow> False
           | Inr groups \<Rightarrow>
               (case centers coor lattice PBC groups of
                  Inl e \<Rightarrow> False
                | Inr merged \<Rightarrow> cwp merged sg = Inr None)))"
subsection \<open>The data the generator reads\<close>

text \<open>
  What \<open>random_crystal\<close> takes from outside the two source files is a parameter of the
  model: the element database (\<open>Element(symbol).covalent_radius\<close>, \<open>Element(symbol).z\<close>),
  pymatgen's \<open>sg_symbol_from_int_number\<close> and its equality of symmetry operations, the
  Wyckoff table of a space group as \<open>get_wyckoffs(sg)\<close> reads it from the bundled CSV file,
  and \<open>check_wyckoff_position\<close>.
\<close>

record 'sp tables =
  covalent_radius :: "'sp \<Rightarrow> real"
  atomic_number :: "'sp \<Rightarrow> nat"
  sg_symbol :: "nat \<Rightarrow> string"
  symm_eq :: "symmop \<Rightarrow> symmop \<Rightarrow> bool"
  wyckoff_table :: "nat \<Rightarrow> wyckoff_position list"
  check_wyckoff_position :: "vec3 list \<Rightarrow> nat \<Rightarrow> error + nat option"

text \<open>The module constants.\<close>

definition tol_m :: real where "tol_m = 1"
definition max1 :: nat where "max1 = 30"
definition max2 :: nat where "max2 = 30"
definition max3 :: nat where "max3 = 30"

text \<open>
  \<open>cellsize(sg)\<close> from the first letter of the symbol; for a letter it does not know it
  returns its message, a string (\<open>Inl\<close>).
\<close>

definition cellsize :: "(nat \<Rightarrow> string) \<Rightarrow> nat \<Rightarrow> error + (string + int)" where
  "cellsize symbol_of sg =
     (case symbol_of sg of
        [] \<Rightarrow> Inl IndexError
      | letter # _ \<Rightarrow>
          if letter = CHR ''P'' then Inr (Inr 1)
          else if letter \<in> set [CHR ''A'', CHR ''C'', CHR ''I''] then Inr (Inr 2)
          else if letter \<in> set [CHR ''R''] then Inr (Inr 3)
          else if letter \<in> set [CHR ''F''] then Inr (Inr 4)
          else Inr (Inl ''Error: Could not determine lattice type''))"

definition estimate_volume :: "('sp \<Rightarrow> real) \<Rightarrow> int list \<Rightarrow> 'sp list \<Rightarrow> real \<Rightarrow> real" where
  "estimate_volume radius numIons species factor =
     factor * fold (\<lambda>(numIon, specie) volume.
                      volume + of_int numIon * 4 / 3 * pi * radius specie ^ 3)
                (zip numIons species) 0"

subsection \<open>check_compatible\<close>

text \<open>
  \<open>m.all() != 0.0\<close> holds when no entry of the matrix is zero;
  \<open>np.allclose(m, np.zeros([3,3]))\<close> when every entry is within 1e-8 of zero. The
  remainder of a numpy integer by zero is zero.
\<close>

definition entries :: "mat3 \<Rightarrow> real list" where
  "entries m = (case m of ((a1, a2, a3), (b1, b2, b3), (c1, c2, c3)) \<Rightarrow>
                  [a1, a2, a3, b1, b2, b3, c1, c2, c3])"

definition all_nonzero :: "mat3 \<Rightarrow> bool" where
  "all_nonzero m \<longleftrightarrow> list_all (\<lambda>x. x \<noteq> 0) (entries m)"

definition allclose_zero :: "mat3 \<Rightarrow> bool" where
  "allclose_zero m \<longleftrightarrow> list_all (\<lambda>x. \<bar>x\<bar> \<le> 1 / 10 ^ 8) (entries m)"

definition np_mod :: "int \<Rightarrow> int \<Rightarrow> int" where
  "np_mod a b = (if b = 0 then 0 else a mod b)"

text \<open>
  \<open>wp in removed_wyckoffs\<close>: the very position, or one equal to it operation by operation.
\<close>

definition wp_in ::
  "(symmop \<Rightarrow> symmop \<Rightarrow> bool) \<Rightarrow> wyckoff_position \<Rightarrow> wyckoff_position list \<Rightarrow> bool" where
  "wp_in eq wp removed_wyckoffs \<longleftrightarrow>
     list_ex (\<lambda>r. r = wp \<or> list_all2 eq wp r) removed_wyckoffs"

text \<open>
  The \<open>while\<close> loop that takes a position as often as it fits. Its state is
  \<open>remaining\<close>, \<open>removed_wyckoffs\<close> and \<open>has_freedom\<close>.
\<close>

function fill_position ::
  "(symmop \<Rightarrow> symmop \<Rightarrow> bool) \<Rightarrow> wyckoff_position
     \<Rightarrow> int \<times> wyckoff_position list \<times> bool \<Rightarrow> error + int \<times> wyckoff_position list \<times> bool" where
  "fill_position eq wp (remaining, removed_wyckoffs, has_freedom) =
     (if remaining \<ge> int (length wp) \<and> \<not> wp_in eq wp removed_wyckoffs then
        (case wp of
           [] \<Rightarrow> Inl IndexError
         | op # _ \<Rightarrow>
             if allclose_zero (rotation_matrix op)
             then fill_position eq wp
                    (remaining - int (length wp), removed_wyckoffs @ [wp], has_freedom)
             else fill_position eq wp
                    (remaining - int (length wp), removed_wyckoffs, True))
      else Inr (remaining, removed_wyckoffs, has_freedom))"
  by pat_completeness auto
termination
  by (relation "measure (\<lambda>(eq, wp, remaining, removed_wyckoffs, has_freedom). nat remaining)")
     auto

declare fill_position.simps [simp del]

text \<open>The loops \<open>for x in self.wyckoffs: for wp in x\<close> around it.\<close>

fun fill_positions ::
  "(symmop \<Rightarrow> symmop \<Rightarrow> bool) \<Rightarrow> wyckoff_position list
     \<Rightarrow> int \<times> wyckoff_position list \<times> bool \<Rightarrow> error + int \<times> wyckoff_position list \<times> bool" where
  "fill_positions eq [] st = Inr st"
| "fill_positions eq (wp # rest) st =
     (case fill_position eq wp st of
        Inl e \<Rightarrow> Inl e
      | Inr st \<Rightarrow> fill_positions eq rest st)"

text \<open>
  \<open>N_site = [len(x[0]) for x in self.wyckoffs]\<close>, and the reads \<open>N_site[-1]\<close> and
  \<open>self.wyckoffs[-1][-1][0]\<close>.
\<close>

fun N_site :: "'a list list list \<Rightarrow> error + nat list" where
  "N_site [] = Inr []"
| "N_site (x # rest) =
     (case x of
        [] \<Rightarrow> Inl IndexError
      | w # _ \<Rightarrow> (case N_site rest of Inl e \<Rightarrow> Inl e | Inr ns \<Rightarrow> Inr (length w # ns)))"

definition last_of :: "'a list \<Rightarrow> error + 'a" where
  "last_of xs = (if xs = [] then Inl IndexError else Inr (last xs))"

definition last_last_first :: "'a list list list \<Rightarrow> error + 'a" where
  "last_last_first wyckoffs =
     (case last_of wyckoffs of
        Inl e \<Rightarrow> Inl e
      | Inr x \<Rightarrow>
          (case last_of x of
             Inl e \<Rightarrow> Inl e
           | Inr wp \<Rightarrow> (case wp of [] \<Rightarrow> Inl IndexError | op # _ \<Rightarrow> Inr op)))"

text \<open>The three results of \<open>check_compatible\<close>: \<open>False\<close>, \<open>True\<close> and \<open>0\<close>.\<close>

datatype compatible = IsFalse | IsTrue | IsZero

text \<open>The loop \<open>for numIon in self.numIons\<close>; \<open>Inr IsFalse\<close> is its \<open>return False\<close>.\<close>

fun compatible_loop ::
  "(symmop \<Rightarrow> symmop \<Rightarrow> bool) \<Rightarrow> wyckoff_position list list \<Rightarrow> nat list \<Rightarrow> int list
     \<Rightarrow> wyckoff_position list \<times> bool \<Rightarrow> error + compatible" where
  "compatible_loop eq wyckoffs ns [] (removed_wyckoffs, has_freedom) =
     Inr (if has_freedom then IsTrue else IsZero)"
| "compatible_loop eq wyckoffs ns (numIon # rest) (removed_wyckoffs, has_freedom) =
     (case last_of ns of
        Inl e \<Rightarrow> Inl e
      | Inr n_last \<Rightarrow>
          if np_mod numIon (int n_last) > 0 then Inr IsFalse
          else
            (case last_last_first wyckoffs of
               Inl e \<Rightarrow> Inl e
             | Inr op \<Rightarrow>
                 if all_nonzero (rotation_matrix op)
                 then compatible_loop eq wyckoffs ns rest (removed_wyckoffs, True)
                 else
                   (case fill_positions eq (concat wyckoffs)
                           (numIon, removed_wyckoffs, has_freedom) of
                      Inl e \<Rightarrow> Inl e
                    | Inr (remaining, removed_wyckoffs, has_freedom) \<Rightarrow>
                        if remaining \<noteq> 0 then Inr IsFalse
                        else compatible_loop eq wyckoffs ns rest
                               (removed_wyckoffs, has_freedom))))"

definition check_compatible ::
  "(symmop \<Rightarrow> symmop \<Rightarrow> bool) \<Rightarrow> wyckoff_position list list \<Rightarrow> int list
     \<Rightarrow> error + compatible" where
  "check_compatible eq wyckoffs numIons =
     (case N_site wyckoffs of
        Inl e \<Rightarrow> Inl e
      | Inr ns \<Rightarrow> compatible_loop eq wyckoffs ns numIons ([], False))"

subsection \<open>generate_crystal\<close>

text \<open>
  The draws of one turn of the innermost loop: \<open>rand(0,1)\<close> and \<open>choose\<close> inside
  \<open>choose_wyckoff\<close>, and the point \<open>np.random.random(3)\<close>. The draws of a run are addressed
  by the loop counters: \<open>lattice_draws cycle1 n\<close> for attempt \<open>n\<close> of the sampler in the
  outer turn \<open>cycle1\<close>, \<open>orbit_draws cycle1 cycle2 species_index cycle3\<close> for a placement.
\<close>

record orbit_draw =
  rand_draw :: real
  choice_draw :: nat
  point_draw :: vec3

record draws =
  lattice_draws :: "nat \<Rightarrow> nat \<Rightarrow> lattice_draw"
  orbit_draws :: "nat \<Rightarrow> nat \<Rightarrow> nat \<Rightarrow> nat \<Rightarrow> orbit_draw"

text \<open>The variables of the packing loops.\<close>

record 'sp packing =
  coordinates_total :: "vec3 list list"
  sites_total :: "'sp list"
  coordinates_tmp :: "vec3 list list"
  sites_tmp :: "'sp list"
  numIon_added :: int

text \<open>
  The body of \<open>for cycle3 in range(max3)\<close>. The flag of the result is the \<open>break\<close>.
  \<open>merge_coordinate\<close> and \<open>check_distance\<close> are called without PBC and with
  \<open>d_factor = 1.0\<close>.
\<close>

definition place_orbit ::
  "'sp tables \<Rightarrow> wyckoff_position list list \<Rightarrow> nat \<Rightarrow> mat3 \<Rightarrow> int \<Rightarrow> 'sp \<Rightarrow> real
     \<Rightarrow> orbit_draw \<Rightarrow> 'sp packing \<Rightarrow> error + 'sp packing \<times> bool" where
  "place_orbit T wyckoffs sg cell_matrix numIon specie tol d st =
     (case choose_wyckoff wyckoffs (numIon - numIon_added st) (rand_draw d) (choice_draw d) of
        Inl e \<Rightarrow> Inl e
      | Inr None \<Rightarrow> Inr (st, False)
      | Inr (Some ops) \<Rightarrow>
          let point = point_draw d;
              coords = map (\<lambda>op. operate op point) ops
          in (case merge_coordinate (check_wyckoff_position T) coords cell_matrix wyckoffs sg
                     tol None of
                Inl e \<Rightarrow> Inl e
              | Inr (coords_toadd, good_merge) \<Rightarrow>
                  if good_merge = None then Inr (st, False)
                  else
                    let coords_toadd = map wrap coords_toadd
                    in (case check_distance (covalent_radius T) (coordinates_tmp st)
                               coords_toadd (sites_tmp st) specie cell_matrix None 1 of
                          Inl e \<Rightarrow> Inl e
                        | Inr far \<Rightarrow>
                            let st = (if far
                                      then st\<lparr>coordinates_tmp := coordinates_tmp st @ [coords_toadd],
                                              sites_tmp := sites_tmp st @ [specie],
                                              numIon_added :=
                                                numIon_added st + int (length coords_toadd)\<rparr>
                                      else st)
                            in if numIon_added st = numIon
                               then Inr (st\<lparr>coordinates_total := coordinates_tmp st,
                                            sites_total := sites_tmp st\<rparr>, True)
                               else Inr (st, False))))"

fun cycle3_loop ::
  "'sp tables \<Rightarrow> wyckoff_position list list \<Rightarrow> nat \<Rightarrow> mat3 \<Rightarrow> int \<Rightarrow> 'sp \<Rightarrow> real
     \<Rightarrow> (nat \<Rightarrow> orbit_draw) \<Rightarrow> nat \<Rightarrow> nat \<Rightarrow> 'sp packing \<Rightarrow> error + 'sp packing" where
  "cycle3_loop T wyckoffs sg cell_matrix numIon specie tol ds cycle3 0 st = Inr st"
| "cycle3_loop T wyckoffs sg cell_matrix numIon specie tol ds cycle3 (Suc k) st =
     (case place_orbit T wyckoffs sg cell_matrix numIon specie tol (ds cycle3) st of
        Inl e \<Rightarrow> Inl e
      | Inr (st, True) \<Rightarrow> Inr st
      | Inr (st, False) \<Rightarrow>
          cycle3_loop T wyckoffs sg cell_matrix numIon specie tol ds (Suc cycle3) k st)"

text \<open>
  The loop \<open>for numIon, specie in zip(self.numIons, self.species)\<close>. The test after it,
  \<open>numIon_added == numIon\<close>, reads the variables of its last turn: the loop returns the
  \<open>numIon\<close> of that turn, and \<open>None\<close> when the zip was empty and the names are unbound.
\<close>

fun species_loop ::
  "'sp tables \<Rightarrow> wyckoff_position list list \<Rightarrow> nat \<Rightarrow> mat3 \<Rightarrow> nat
     \<Rightarrow> (nat \<Rightarrow> nat \<Rightarrow> orbit_draw) \<Rightarrow> (int \<times> 'sp) list \<Rightarrow> nat \<Rightarrow> 'sp packing \<Rightarrow> int option
     \<Rightarrow> error + 'sp packing \<times> int option" where
  "species_loop T wyckoffs sg cell_matrix m3 ds [] i st last_numIon = Inr (st, last_numIon)"
| "species_loop T wyckoffs sg cell_matrix m3 ds ((numIon, specie) # rest) i st last_numIon =
     (let st = st\<lparr>numIon_added := 0\<rparr>;
          tol = max (1 / 2 * covalent_radius T specie) tol_m
      in (case cycle3_loop T wyckoffs sg cell_matrix numIon specie tol (ds i) 0 m3 st of
            Inl e \<Rightarrow> Inl e
          | Inr st \<Rightarrow>
              if numIon_added st \<noteq> numIon then Inr (st, Some numIon)
              else species_loop T wyckoffs sg cell_matrix m3 ds rest (Suc i) st (Some numIon)))"

text \<open>
  The loop \<open>for cycle2 in range(max2)\<close>, from the totals it starts with; \<open>Some\<close> is a good
  structure, \<open>None\<close> the end of the loop without one.
\<close>

fun cycle2_loop ::
  "'sp tables \<Rightarrow> wyckoff_position list list \<Rightarrow> nat \<Rightarrow> mat3 \<Rightarrow> nat
     \<Rightarrow> (nat \<Rightarrow> nat \<Rightarrow> nat \<Rightarrow> orbit_draw) \<Rightarrow> (int \<times> 'sp) list \<Rightarrow> nat \<Rightarrow> nat
     \<Rightarrow> vec3 list list \<times> 'sp list \<Rightarrow> error + (vec3 list list \<times> 'sp list) option" where
  "cycle2_loop T wyckoffs sg cell_matrix m3 ds ions cycle2 0 totals = Inr None"
| "cycle2_loop T wyckoffs sg cell_matrix m3 ds ions cycle2 (Suc k) totals =
     (let st = \<lparr>coordinates_total = fst totals, sites_total = snd totals,
                coordinates_tmp = fst totals, sites_tmp = snd totals, numIon_added = 0\<rparr>
      in (case species_loop T wyckoffs sg cell_matrix m3 (ds cycle2) ions 0 st None of
            Inl e \<Rightarrow> Inl e
          | Inr (st, None) \<Rightarrow> Inl UnboundLocalError
          | Inr (st, Some numIon) \<Rightarrow>
              if numIon_added st = numIon
              then Inr (Some (coordinates_total st, sites_total st))
              else cycle2_loop T wyckoffs sg cell_matrix m3 ds ions (Suc cycle2) k ([], [])))"

text \<open>What the run has printed.\<close>

datatype printout =
    Text string
  | LatticeError nat real

definition Msg1 :: string where
  "Msg1 = ''Error: the number is incompatible with the wyckoff sites choice''"

definition Msg2 :: string where
  "Msg2 = ''Error: failed in the cycle of generating structures''"

text \<open>
  A call of the generator raises, ends the process by \<open>sys.exit(0)\<close>, or returns.
\<close>

datatype 'a outcome = Raises error | Exits | Returns 'a

text \<open>
  The loop \<open>for cycle1 in range(max1)\<close>: a lattice, its matrix, the volume test with its
  \<open>sys.exit(0)\<close>, and the packing. \<open>generate_lattice\<close> is called with its defaults
  (minimum angle pi/6, ratio 10, 100 attempts); when it returns nothing it has printed its
  error and the loop breaks.
\<close>

fun cycle1_loop ::
  "'sp tables \<Rightarrow> wyckoff_position list list \<Rightarrow> nat \<Rightarrow> real \<Rightarrow> real \<Rightarrow> nat \<Rightarrow> nat
     \<Rightarrow> draws \<Rightarrow> (int \<times> 'sp) list \<Rightarrow> nat \<Rightarrow> nat
     \<Rightarrow> ((mat3 \<times> vec3 list list \<times> 'sp list) option \<times> printout list) outcome" where
  "cycle1_loop T wyckoffs sg volume minvector m2 m3 rnd ions cycle1 0 = Returns (None, [])"
| "cycle1_loop T wyckoffs sg volume minvector m2 m3 rnd ions cycle1 (Suc k) =
     (case generate_lattice sg volume minvector (pi / 6) 10 100 (lattice_draws rnd cycle1) of
        Inl e \<Rightarrow> Raises e
      | Inr None \<Rightarrow> Returns (None, [LatticeError 100 volume])
      | Inr (Some cell_para) \<Rightarrow>
          (case para2matrix cell_para of
             Inl e \<Rightarrow> Raises e
           | Inr cell_matrix \<Rightarrow>
               if \<bar>volume - det3 cell_matrix\<bar> > 1 then Exits
               else
                 (case cycle2_loop T wyckoffs sg cell_matrix m3 (orbit_draws rnd cycle1) ions
                         0 m2 ([], []) of
                    Inl e \<Rightarrow> Raises e
                  | Inr (Some (coor_total, site_total)) \<Rightarrow>
                      Returns (Some (cell_matrix, coor_total, site_total), [])
                  | Inr None \<Rightarrow>
                      cycle1_loop T wyckoffs sg volume minvector m2 m3 rnd ions
                        (Suc cycle1) k)))"

text \<open>
  The object after \<open>__init__\<close>, and what \<open>generate_crystal\<close> sets on it. An attribute
  that was never set is \<open>None\<close> (\<open>final_lattice\<close> is the attribute \<open>lattice\<close>); \<open>struct\<close>
  is \<open>None\<close>, the message \<open>Msg2\<close>, or a pymatgen \<open>Structure\<close> of lattice, sites and
  coordinates.
\<close>

datatype 'sp struct = NoStruct | MessageStruct string | Structure mat3 "'sp list" "vec3 list"

record 'sp crystal =
  struct :: "'sp struct"
  valid :: bool
  final_lattice :: "mat3 option"
  coordinates :: "vec3 list option"
  sites :: "'sp list option"
  spg_struct :: "(mat3 \<times> vec3 list \<times> nat list) option"
  printed :: "printout list"

text \<open>The loops that flatten the totals into \<open>final_coor\<close> and \<open>final_site\<close>.\<close>

definition final_coor :: "vec3 list list \<Rightarrow> 'sp list \<Rightarrow> vec3 list" where
  "final_coor coor_total site_total =
     concat (map (\<lambda>(coor, ele). coor) (zip coor_total site_total))"

definition final_site :: "vec3 list list \<Rightarrow> 'sp list \<Rightarrow> 'sp list" where
  "final_site coor_total site_total =
     concat (map (\<lambda>(coor, ele). map (\<lambda>x. ele) coor) (zip coor_total site_total))"

text \<open>
  \<open>generate_crystal(self, max1, max2, max3)\<close> on an object with the attributes \<open>sg\<close>,
  \<open>species\<close>, \<open>numIons\<close>, \<open>volume\<close> and \<open>wyckoffs\<close>. The maximum over no species raises
  ValueError.
\<close>

definition unpacked :: "'sp crystal" where
  "unpacked = \<lparr>struct = NoStruct, valid = False, final_lattice = None, coordinates = None,
               sites = None, spg_struct = None, printed = []\<rparr>"

definition generate_crystal ::
  "'sp tables \<Rightarrow> nat \<Rightarrow> 'sp list \<Rightarrow> int list \<Rightarrow> real \<Rightarrow> wyckoff_position list list
     \<Rightarrow> nat \<Rightarrow> nat \<Rightarrow> nat \<Rightarrow> draws \<Rightarrow> 'sp crystal outcome" where
  "generate_crystal T sg species numIons volume wyckoffs m1 m2 m3 rnd =
     (case check_compatible (symm_eq T) wyckoffs numIons of
        Inl e \<Rightarrow> Raises e
      | Inr degrees \<Rightarrow>
          if degrees = IsFalse
          then Returns (unpacked\<lparr>printed := [Text Msg1]\<rparr>)
          else
            let m1 = (if degrees = IsZero then 5 else m1);
                m2 = (if degrees = IsZero then 5 else m2);
                m3 = (if degrees = IsZero then 5 else m3)
            in if species = [] then Raises ValueError
               else
                 let minvector =
                       max (Max (set (map (\<lambda>specie. 2 * covalent_radius T specie) species)))
                           tol_m
                 in (case cycle1_loop T wyckoffs sg volume minvector m2 m3 rnd
                            (zip numIons species) 0 m1 of
                       Raises e \<Rightarrow> Raises e
                     | Exits \<Rightarrow> Exits
                     | Returns (Some (cell_matrix, coor_total, site_total), out) \<Rightarrow>
                         let coor = final_coor coor_total site_total;
                             site = final_site coor_total site_total;
                             number = map (atomic_number T) site
                         in Returns \<lparr>struct = Structure cell_matrix site coor, valid = True,
                                     final_lattice = Some cell_matrix, coordinates = Some coor,
                                     sites = Some site,
                                     spg_struct = Some (cell_matrix, coor, number),
                                     printed = out\<rparr>
                     | Returns (None, out) \<Rightarrow>
                         Returns (unpacked\<lparr>struct := MessageStruct Msg2,
                              printed := out @ (if degrees = IsZero
                                then [Text ''Wyckoff positions have no degrees of freedom.'']
                                else [])\<rparr>)))"

text \<open>
  \<open>random_crystal(sg, species, numIons, factor)\<close>: the constructor scales the counts by
  \<open>cellsize\<close> (a numpy array times the message string raises TypeError), estimates the
  volume, organizes the Wyckoff table and calls \<open>generate_crystal\<close> with the module's
  \<open>max1\<close>, \<open>max2\<close>, \<open>max3\<close>.
\<close>

definition random_crystal ::
  "'sp tables \<Rightarrow> nat \<Rightarrow> 'sp list \<Rightarrow> int list \<Rightarrow> real \<Rightarrow> draws \<Rightarrow> 'sp crystal outcome" where
  "random_crystal T sg species numIons0 factor rnd =
     (case cellsize (sg_symbol T) sg of
        Inl e \<Rightarrow> Raises e
      | Inr (Inl message) \<Rightarrow> Raises TypeError
      | Inr (Inr multiplier) \<Rightarrow>
          let numIons = map (\<lambda>n. n * multiplier) numIons0;
              volume = estimate_volume (covalent_radius T) numIons species factor
          in (case organize (wyckoff_table T sg) of
                Inl e \<Rightarrow> Raises e
              | Inr wyckoffs \<Rightarrow>
                  generate_crystal T sg species numIons volume wyckoffs max1 max2 max3 rnd))"
subsection \<open>check_distance on an empty structure\<close>

lemma create_matrix_not_Nil: "create_matrix PBC \<noteq> []"
  by (auto simp add: create_matrix_def)

text \<open>
  C10, as stated, fails for the empty candidate list: the call raises ValueError
  before it looks at \<open>coord1\<close>.
\<close>

theorem check_distance_empty_candidate:
  "check_distance (\<lambda>s::nat. 1) [] [] [] 0 ((1, 0, 0), (0, 1, 0), (0, 0, 1)) None 1
     = Inl ValueError"
  by (simp add: check_distance_def)

text \<open>
  C10, amended: with \<open>coord1\<close> empty, \<open>check_distance\<close> returns True for every candidate
  list that holds a point, whatever the species, the lattice, the PBC setting and d_factor.
  Every orbit has a point, so the first orbit added to an empty structure passes.
\<close>

theorem check_distance_empty_coord1:
  "coord2 \<noteq> [] \<Longrightarrow>
     check_distance radius [] coord2 specie1 specie2 lattice PBC d_factor = Inr True"
  by (cases coord2) (simp_all add: check_distance_def Let_def create_matrix_not_Nil)

theorem check_distance_empty_coord1_witness:
  "[(1 / 2, 1 / 2, 1 / 2)] \<noteq> ([] :: vec3 list) \<and>
   check_distance (\<lambda>s::nat. 1) [] [(1 / 2, 1 / 2, 1 / 2)] [] 0
     ((1, 0, 0), (0, 1, 0), (0, 0, 1)) None 1 = Inr True"
  using check_distance_empty_coord1
    [of "[(1 / 2, 1 / 2, 1 / 2)]" "\<lambda>s::nat. 1" "[]" 0 "((1, 0, 0), (0, 1, 0), (0, 0, 1))" None 1]
  by simp

subsection \<open>The round trip through the lattice matrix\<close>

text \<open>
  C7 fails on the code. The parameters a = 1, b = 2, c = 1, alpha = beta = pi/2,
  gamma = pi/3 are valid; their matrix has the rows (1,0,0), (1, sqrt 3, 0), (0,0,1),
  the dot product of the first two rows is 1, and \<open>angle\<close> answers 0 for gamma where
  the angle between the two vectors is pi/3.
\<close>

theorem matrix2para_para2matrix_gamma_lost:
  "para2matrix (1, 2, 1, pi / 2, pi / 2, pi / 3) = Inr ((1, 0, 0), (1, sqrt 3, 0), (0, 0, 1)) \<and>
   matrix2para ((1, 0, 0), (1, sqrt 3, 0), (0, 0, 1)) = Inr (1, 2, 1, pi / 2, pi / 2, 0) \<and>
   \<bar>0 - pi / 3\<bar> > 1 / 10 ^ 8"
proof -
  have "para2matrix (1, 2, 1, pi / 2, pi / 2, pi / 3) = Inr ((1, 0, 0), (1, sqrt 3, 0), (0, 0, 1))"
    by (simp add: para2matrix_def cos_60 sin_60)
  moreover have "matrix2para ((1, 0, 0), (1, sqrt 3, 0), (0, 0, 1)) = Inr (1, 2, 1, pi / 2, pi / 2, 0)"
    by (simp add: matrix2para_def angle_def isclose_def)
  moreover have "\<bar>0 - pi / 3\<bar> > 1 / 10 ^ 8"
    using pi_ge_two by simp
  ultimately show ?thesis by blast
qed


subsection \<open>The sampled cell has the requested volume\<close>

text \<open>
  The cell parameters of every attempt are scaled so that the triple product of the lattice
  vectors is the requested volume: in exact arithmetic the determinant of \<open>para2matrix\<close> of
  a sampled cell is the volume, in each crystal family, for a volume that is not negative.
  \<open>gram\<close> is the expression under the square root of the triclinic branch.
\<close>

lemma cbrt_cube: "cbrt x ^ 3 = x"
  by (simp add: cbrt_def odd_real_root_pow)

lemma cbrt_nonneg: "0 \<le> x \<Longrightarrow> 0 \<le> cbrt x"
  by (simp add: cbrt_def)

lemma cbrt_pos: "0 < x \<Longrightarrow> 0 < cbrt x"
  by (simp add: cbrt_def)

lemma cbrt_nonpos: "x \<le> 0 \<Longrightarrow> cbrt x \<le> 0"
  by (simp add: cbrt_def real_root_le_0_iff)

lemma scaled_abc_product:
  assumes "scaled_abc (v0, v1, v2) q = (a, b, c)" "0 < v0" "0 < v1" "0 < v2"
  shows "a * b * c = q"
proof -
  let ?k = "cbrt (v0 * v1 * v2)"
  have kpos: "0 < ?k" using assms by (simp add: cbrt_pos)
  have k3: "?k ^ 3 = v0 * v1 * v2" by (rule cbrt_cube)
  have q3: "cbrt q ^ 3 = q" by (rule cbrt_cube)
  from assms(1) have abc: "a = v0 * cbrt q / ?k" "b = v1 * cbrt q / ?k" "c = v2 * cbrt q / ?k"
    by (simp_all add: scaled_abc_def Let_def)
  have "a * b * c = (v0 * v1 * v2) * cbrt q ^ 3 / ?k ^ 3"
    by (simp add: abc power3_eq_cube)
  also have "\<dots> = q" using k3 q3 assms by simp
  finally show ?thesis .
qed

lemma scaled_abc_sign:
  assumes "scaled_abc (v0, v1, v2) q = (a, b, c)" "0 < v0" "0 < v1" "0 < v2"
  shows "0 \<le> q \<Longrightarrow> 0 \<le> a \<and> 0 \<le> b \<and> 0 \<le> c"
    and "q \<le> 0 \<Longrightarrow> a \<le> 0 \<and> b \<le> 0 \<and> c \<le> 0"
proof -
  let ?k = "cbrt (v0 * v1 * v2)"
  have kpos: "0 < ?k" using assms by (simp add: cbrt_pos)
  from assms(1) have abc: "a = v0 * cbrt q / ?k" "b = v1 * cbrt q / ?k" "c = v2 * cbrt q / ?k"
    by (simp_all add: scaled_abc_def Let_def)
  show "0 \<le> q \<Longrightarrow> 0 \<le> a \<and> 0 \<le> b \<and> 0 \<le> c"
    using kpos assms(2-4) cbrt_nonneg [of q] by (simp add: abc)
  show "q \<le> 0 \<Longrightarrow> a \<le> 0 \<and> b \<le> 0 \<and> c \<le> 0"
    using kpos assms(2-4) cbrt_nonpos [of q]
    by (simp add: abc divide_nonpos_pos mult_nonneg_nonpos)
qed

definition gram :: "real \<Rightarrow> real \<Rightarrow> real \<Rightarrow> real" where
  "gram alpha beta gamma = 1 - (cos alpha)\<^sup>2 - (cos beta)\<^sup>2 - (cos gamma)\<^sup>2
                      + 2 * (cos alpha * cos beta * cos gamma)"

lemma radicand_aux:
  fixes c ca cb cg s :: real
  assumes "s \<noteq> 0" "s\<^sup>2 = 1 - cg\<^sup>2"
  shows "c\<^sup>2 - (c * cb)\<^sup>2 - ((c * (ca - cb * cg)) / s)\<^sup>2
           = c\<^sup>2 * (1 - ca\<^sup>2 - cb\<^sup>2 - cg\<^sup>2 + 2 * (ca * cb * cg)) / s\<^sup>2"
proof -
  have "c\<^sup>2 - (c * cb)\<^sup>2 - ((c * (ca - cb * cg)) / s)\<^sup>2
          = (c\<^sup>2 * s\<^sup>2 - (c * cb)\<^sup>2 * s\<^sup>2 - (c * (ca - cb * cg))\<^sup>2) / s\<^sup>2"
    using assms(1) by (simp add: power_divide diff_divide_distrib)
  also have "c\<^sup>2 * s\<^sup>2 - (c * cb)\<^sup>2 * s\<^sup>2 - (c * (ca - cb * cg))\<^sup>2
          = c\<^sup>2 * (1 - ca\<^sup>2 - cb\<^sup>2 - cg\<^sup>2 + 2 * (ca * cb * cg))"
    unfolding assms(2) by (simp add: power2_eq_square algebra_simps)
  finally show ?thesis .
qed

lemma para2matrix_radicand:
  assumes "sin gamma \<noteq> 0"
  shows "c\<^sup>2 - (c * cos beta)\<^sup>2 - ((c * (cos alpha - cos beta * cos gamma)) / sin gamma)\<^sup>2
           = c\<^sup>2 * gram alpha beta gamma / (sin gamma)\<^sup>2"
  unfolding gram_def by (rule radicand_aux [OF assms]) (simp add: sin_squared_eq)

lemma para2matrix_det:
  assumes "0 < sin gamma" "0 \<le> gram alpha beta gamma"
  shows "\<exists>M. para2matrix (a, b, c, alpha, beta, gamma) = Inr M
           \<and> det3 M = a * b * \<bar>c\<bar> * sqrt (gram alpha beta gamma)"
proof -
  have nz: "sin gamma \<noteq> 0" using assms by simp
  let ?r = "c\<^sup>2 - (c * cos beta)\<^sup>2 - ((c * (cos alpha - cos beta * cos gamma)) / sin gamma)\<^sup>2"
  have r: "?r = c\<^sup>2 * gram alpha beta gamma / (sin gamma)\<^sup>2"
    by (rule para2matrix_radicand [OF nz])
  have r0: "0 \<le> ?r" unfolding r using assms by simp
  have sq: "sqrt ?r = \<bar>c\<bar> * sqrt (gram alpha beta gamma) / sin gamma"
    unfolding r using assms by (simp add: real_sqrt_divide real_sqrt_mult)
  have "para2matrix (a, b, c, alpha, beta, gamma) =
          Inr ((a, 0, 0), (b * cos gamma, b * sin gamma, 0),
               (c * cos beta, (c * (cos alpha - cos beta * cos gamma)) / sin gamma, sqrt ?r))"
    using nz r0 by (simp add: para2matrix_def Let_def not_less [symmetric])
  moreover have "det3 ((a, 0, 0), (b * cos gamma, b * sin gamma, 0),
               (c * cos beta, (c * (cos alpha - cos beta * cos gamma)) / sin gamma, sqrt ?r))
          = a * b * \<bar>c\<bar> * sqrt (gram alpha beta gamma)"
    using nz by (simp add: sq)
  ultimately show ?thesis by blast
qed


lemma arccos_range: "\<bar>q\<bar> \<le> 1 \<Longrightarrow> 0 \<le> arccos q \<and> arccos q \<le> pi"
  using arccos_lbound [of q] arccos_ubound [of q] by (simp add: abs_le_iff)

lemma angle_range: "angle v1 v2 = Inr t \<Longrightarrow> 0 \<le> t \<and> t \<le> pi"
  unfolding angle_def Let_def
  using arccos_range [of "vdot v1 v2 / (vnorm v1 * vnorm v2)"]
  by (auto simp: not_less split: if_splits)

lemma matrix2para_angles:
  "matrix2para mat = Inr (a, b, c, alpha, beta, gamma) \<Longrightarrow> 0 \<le> gamma \<and> gamma \<le> pi"
  by (auto simp: matrix2para_def split: prod.splits sum.splits dest: angle_range)

lemma gram_sin_zero:
  assumes "sin gamma = 0"
  shows "gram alpha beta gamma \<le> 0"
proof -
  have "(cos gamma)\<^sup>2 = 1" using assms by (simp add: cos_squared_eq)
  then have "cos gamma = 1 \<or> cos gamma = - 1" by (simp add: power2_eq_1_iff)
  then show ?thesis
  proof
    assume c: "cos gamma = 1"
    have "gram alpha beta gamma = - (cos alpha - cos beta)\<^sup>2"
      by (simp add: gram_def c power2_eq_square algebra_simps)
    then show ?thesis by simp
  next
    assume c: "cos gamma = - 1"
    have "gram alpha beta gamma = - (cos alpha + cos beta)\<^sup>2"
      by (simp add: gram_def c power2_eq_square algebra_simps)
    then show ?thesis by simp
  qed
qed

lemma random_vector_pos:
  "random_vector n = (v0, v1, v2) \<Longrightarrow> 0 < v0 \<and> 0 < v1 \<and> 0 < v2"
  by (cases n) auto

lemma det_scaled:
  assumes sc: "scaled_abc (random_vector n) (volume / x) = (a, b, c)"
    and sin: "0 < sin gamma" and g: "0 \<le> gram alpha beta gamma"
    and x: "x \<noteq> 0" "\<bar>x\<bar> = sqrt (gram alpha beta gamma)"
    and vol: "0 \<le> volume"
  shows "\<exists>M. para2matrix (a, b, c, alpha, beta, gamma) = Inr M \<and> det3 M = volume"
proof -
  obtain v0 v1 v2 where v: "random_vector n = (v0, v1, v2)" by (cases "random_vector n")
  then have pos: "0 < v0" "0 < v1" "0 < v2" using random_vector_pos by blast+
  have prod: "a * b * c = volume / x"
    using scaled_abc_product [of v0 v1 v2 "volume / x" a b c] sc v pos by simp
  have cx: "0 \<le> c * x"
  proof (cases "0 < x")
    case True
    then have "0 \<le> volume / x" using vol by simp
    then have "0 \<le> c" using scaled_abc_sign(1) [of v0 v1 v2 "volume / x" a b c] sc v pos by simp
    then show ?thesis using True by simp
  next
    case False
    then have neg: "x < 0" using x by simp
    then have "volume / x \<le> 0" using vol by (simp add: divide_nonneg_neg)
    then have "c \<le> 0" using scaled_abc_sign(2) [of v0 v1 v2 "volume / x" a b c] sc v pos by simp
    then show ?thesis using neg by (simp add: mult_nonpos_nonpos)
  qed
  obtain M where M: "para2matrix (a, b, c, alpha, beta, gamma) = Inr M"
      "det3 M = a * b * \<bar>c\<bar> * sqrt (gram alpha beta gamma)"
    using para2matrix_det [OF sin g] by blast
  have "\<bar>c\<bar> * sqrt (gram alpha beta gamma) = \<bar>c * x\<bar>"
    using x(2) by (simp add: abs_mult)
  also have "\<dots> = c * x" using cx by simp
  finally have "det3 M = a * b * (c * x)" using M(2) by simp
  also have "\<dots> = (a * b * c) * x" by simp
  also have "\<dots> = volume" using prod x(1) by simp
  finally show ?thesis using M(1) by blast
qed


lemma gram_right_angles: "gram (pi / 2) beta (pi / 2) = (sin beta)\<^sup>2"
  by (simp add: gram_def sin_squared_eq)

lemma sin_two_thirds_pi: "sin (pi * 2 / 3) = sqrt 3 / 2"
proof -
  have "pi * 2 / 3 = pi - pi / 3" by simp
  then show ?thesis by (simp only: sin_pi_minus sin_60)
qed

lemma cos_two_thirds_pi: "cos (pi * 2 / 3) = - (1 / 2)"
proof -
  have "pi * 2 / 3 = pi - pi / 3" by simp
  then show ?thesis by (simp only: cos_pi_minus cos_60)
qed

lemma gram_hexagonal: "gram (pi / 2) (pi / 2) (pi * 2 / 3) = (sqrt 3 / 2)\<^sup>2"
  by (simp add: gram_def cos_two_thirds_pi power2_eq_square)

lemma det_triclinic:
  assumes "sg \<le> 2" "sample_cell sg volume minangle maxangle d = Inr (Some p)" "0 \<le> volume"
  shows "\<exists>M. para2matrix p = Inr M \<and> det3 M = volume"
proof -
  from assms(1,2) obtain mat a0 b0 c0 alpha beta gamma a b c where
      m2p: "matrix2para mat = Inr (a0, b0, c0, alpha, beta, gamma)"
    and g0: "0 \<le> gram alpha beta gamma"
    and x0: "sqrt (gram alpha beta gamma) \<noteq> 0"
    and sc: "scaled_abc (random_vector (vector_draw d)) (volume / sqrt (gram alpha beta gamma))
               = (a, b, c)"
    and p: "p = (a, b, c, alpha, beta, gamma)"
    by (auto simp: sample_cell_def gram_def Let_def not_less
             split: sum.splits prod.splits if_splits)
  have "0 \<le> gamma" "gamma \<le> pi" using matrix2para_angles [OF m2p] by simp_all
  then have "0 \<le> sin gamma" by (rule sin_ge_zero)
  moreover have "sin gamma \<noteq> 0"
  proof
    assume "sin gamma = 0"
    then have "gram alpha beta gamma \<le> 0" by (rule gram_sin_zero)
    with g0 have "gram alpha beta gamma = 0" by simp
    with x0 show False by simp
  qed
  ultimately have sin: "0 < sin gamma" by simp
  show ?thesis
    unfolding p using sc sin g0 x0 _ assms(3)
    by (rule det_scaled) (simp add: g0)
qed

lemma det_monoclinic:
  assumes "2 < sg" "sg \<le> 15" "sample_cell sg volume minangle maxangle d = Inr (Some p)"
    "0 \<le> volume"
  shows "\<exists>M. para2matrix p = Inr M \<and> det3 M = volume"
proof -
  from assms(1-3) obtain beta a b c where
      x0: "sin beta \<noteq> 0"
    and sc: "scaled_abc (random_vector (vector_draw d)) (volume / sin beta) = (a, b, c)"
    and p: "p = (a, b, c, pi / 2, beta, pi / 2)"
    by (auto simp: sample_cell_def Let_def split: sum.splits prod.splits if_splits)
  show ?thesis
    unfolding p using sc _ _ x0 _ assms(4)
    by (rule det_scaled) (simp_all add: gram_right_angles)
qed

lemma det_orthorhombic:
  assumes "15 < sg" "sg \<le> 74" "sample_cell sg volume minangle maxangle d = Inr (Some p)"
    "0 \<le> volume"
  shows "\<exists>M. para2matrix p = Inr M \<and> det3 M = volume"
proof -
  from assms(1-3) obtain a b c where
      sc: "scaled_abc (random_vector (vector_draw d)) (volume / 1) = (a, b, c)"
    and p: "p = (a, b, c, pi / 2, pi / 2, pi / 2)"
    by (auto simp: sample_cell_def Let_def split: sum.splits prod.splits if_splits)
  show ?thesis
    unfolding p using sc _ _ _ _ assms(4)
    by (rule det_scaled) (simp_all add: gram_right_angles)
qed

lemma det_sqrt_cell:
  assumes vec: "random_vector n = (v0, v1, v2)"
    and c: "c = v2 / (v0 * v1) * cbrt (volume / x)" "c \<noteq> 0"
    and a: "a = sqrt ((volume / x) / c)"
    and sin: "0 < sin gamma" and g: "gram alpha beta gamma = x\<^sup>2" and x: "0 < x"
    and vol: "0 \<le> volume"
  shows "\<exists>M. para2matrix (a, a, c, alpha, beta, gamma) = Inr M \<and> det3 M = volume"
proof -
  have pos: "0 < v0" "0 < v1" "0 < v2" using random_vector_pos [OF vec] by simp_all
  have "0 \<le> volume / x" using vol x by simp
  then have "0 \<le> cbrt (volume / x)" by (rule cbrt_nonneg)
  then have "0 \<le> c" using pos by (simp add: c(1))
  with c(2) have cpos: "0 < c" by simp
  have q: "0 \<le> (volume / x) / c" using vol x cpos by simp
  have "a * a = \<bar>(volume / x) / c\<bar>" by (simp only: a real_sqrt_mult_self)
  then have aa: "a * a = (volume / x) / c" using q by (simp only: abs_of_nonneg)
  obtain M where M: "para2matrix (a, a, c, alpha, beta, gamma) = Inr M"
      "det3 M = a * a * \<bar>c\<bar> * sqrt (gram alpha beta gamma)"
    using para2matrix_det [OF sin, of alpha beta a a c] g by auto
  have "det3 M = (volume / x) / c * c * x"
    using M(2) aa cpos x by (simp add: g)
  also have "\<dots> = volume" using cpos x by simp
  finally show ?thesis using M(1) by blast
qed

lemma det_tetragonal_hexagonal:
  assumes "74 < sg" "sg \<le> 194" "sample_cell sg volume minangle maxangle d = Inr (Some p)"
    "0 \<le> volume"
  shows "\<exists>M. para2matrix p = Inr M \<and> det3 M = volume"
proof -
  define gamma :: real where "gamma = (if sg \<le> 142 then pi / 2 else pi / 3 * 2)"
  define x :: real where "x = (if sg \<le> 142 then 1 else sqrt 3 / 2)"
  obtain v0 v1 v2 where vec: "random_vector (vector_draw d) = (v0, v1, v2)"
    by (cases "random_vector (vector_draw d)")
  define c where "c = v2 / (v0 * v1) * cbrt (volume / x)"
  define a where "a = sqrt ((volume / x) / c)"
  from assms(1-3) vec have c0: "c \<noteq> 0" and p: "p = (a, a, c, pi / 2, pi / 2, gamma)"
    by (auto simp: sample_cell_def Let_def gamma_def x_def c_def a_def split: if_splits)
  have sin: "0 < sin gamma" by (simp add: gamma_def sin_two_thirds_pi)
  have g: "gram (pi / 2) (pi / 2) gamma = x\<^sup>2"
    by (simp add: gamma_def x_def gram_hexagonal gram_right_angles)
  have x: "0 < x" by (simp add: x_def)
  show ?thesis
    unfolding p using vec c_def c0 a_def sin g x assms(4) by (rule det_sqrt_cell)
qed

lemma det_cubic:
  assumes "194 < sg" "sample_cell sg volume minangle maxangle d = Inr (Some p)" "0 \<le> volume"
  shows "\<exists>M. para2matrix p = Inr M \<and> det3 M = volume"
proof -
  define s where "s = root 3 volume"
  from assms have p: "p = (s, s, s, pi / 2, pi / 2, pi / 2)"
    by (auto simp: sample_cell_def Let_def s_def split: if_splits)
  have s0: "0 \<le> s" using assms(3) by (simp add: s_def)
  have s3: "s ^ 3 = volume" using assms(3) by (simp add: s_def)
  obtain M where M: "para2matrix (s, s, s, pi / 2, pi / 2, pi / 2) = Inr M"
      "det3 M = s * s * \<bar>s\<bar> * sqrt (gram (pi / 2) (pi / 2) (pi / 2))"
    using para2matrix_det [of "pi / 2" "pi / 2" "pi / 2" s s s]
    by (auto simp: gram_right_angles)
  have "det3 M = s ^ 3" using M(2) s0 by (simp add: gram_right_angles power3_eq_cube)
  then show ?thesis using M(1) s3 unfolding p by auto
qed

lemma sample_cell_det:
  assumes "sample_cell sg volume minangle maxangle d = Inr (Some p)" "0 \<le> volume"
  shows "\<exists>M. para2matrix p = Inr M \<and> det3 M = volume"
proof -
  consider "sg \<le> 2" | "2 < sg" "sg \<le> 15" | "15 < sg" "sg \<le> 74" | "74 < sg" "sg \<le> 194"
    | "194 < sg" by linarith
  then show ?thesis
  proof cases
    case 1 then show ?thesis using assms by (rule det_triclinic)
  next
    case 2 then show ?thesis using assms by (rule det_monoclinic)
  next
    case 3 then show ?thesis using assms by (rule det_orthorhombic)
  next
    case 4 then show ?thesis using assms by (rule det_tetragonal_hexagonal)
  next
    case 5 then show ?thesis using assms by (rule det_cubic)
  qed
qed

lemma lattice_attempts_sound:
  "lattice_attempts sg volume minvec minangle max_ratio draws n k = Inr (Some p) \<Longrightarrow>
     accepted minvec minangle max_ratio p \<and>
     (\<exists>m. sample_cell sg volume minangle (pi - minangle) (draws m) = Inr (Some p))"
  by (induction k arbitrary: n) (auto split: sum.splits option.splits if_splits)

text \<open>
  C4: a tuple that \<open>generate_lattice\<close> returns has passed the acceptance test. The
  comparisons with \<open>maxvec\<close> and of the ratios are those of numpy; they are the plain
  ones when \<open>minvec\<close> is not zero (for \<open>maxvec = a*b*c/minvec^2\<close>) and not negative
  (for the ratios, whose divisors then exceed 0).
\<close>

theorem generate_lattice_accepted:
  assumes "generate_lattice sg volume minvec minangle max_ratio maxattempts draws
             = Inr (Some (a, b, c, alpha, beta, gamma))"
  shows "(minvec < a \<and> minvec < b \<and> minvec < c)
       \<and> (np_less (Fin a) (np_div (a * b * c) (minvec\<^sup>2))
            \<and> np_less (Fin b) (np_div (a * b * c) (minvec\<^sup>2))
            \<and> np_less (Fin c) (np_div (a * b * c) (minvec\<^sup>2)))
       \<and> (minangle < alpha \<and> alpha < pi - minangle \<and> minangle < beta \<and> beta < pi - minangle
            \<and> minangle < gamma \<and> gamma < pi - minangle)
       \<and> (np_less (np_div a b) (Fin max_ratio) \<and> np_less (np_div a c) (Fin max_ratio)
            \<and> np_less (np_div b c) (Fin max_ratio) \<and> np_less (np_div b a) (Fin max_ratio)
            \<and> np_less (np_div c a) (Fin max_ratio) \<and> np_less (np_div c b) (Fin max_ratio))
       \<and> min (a * cos (max beta gamma))
              (min (b * cos (max alpha gamma)) (c * cos (max alpha beta))) < minvec
       \<and> (minvec \<noteq> 0 \<longrightarrow>
            a < a * b * c / minvec\<^sup>2 \<and> b < a * b * c / minvec\<^sup>2 \<and> c < a * b * c / minvec\<^sup>2)
       \<and> (0 \<le> minvec \<longrightarrow>
            a / b < max_ratio \<and> a / c < max_ratio \<and> b / c < max_ratio
            \<and> b / a < max_ratio \<and> c / a < max_ratio \<and> c / b < max_ratio)"
proof -
  from assms have "lattice_attempts sg volume minvec minangle max_ratio draws 0 maxattempts
                     = Inr (Some (a, b, c, alpha, beta, gamma))"
    by (simp add: generate_lattice_def split: if_splits)
  then have acc: "accepted minvec minangle max_ratio (a, b, c, alpha, beta, gamma)"
    using lattice_attempts_sound by blast
  then have ok: "np_less (Fin minvec) (np_div (a * b * c) (minvec\<^sup>2))"
    by (simp add: accepted_def Let_def split: if_splits)
  from acc ok have vecs: "minvec < a" "minvec < b" "minvec < c"
    and maxs: "np_less (Fin a) (np_div (a * b * c) (minvec\<^sup>2))"
      "np_less (Fin b) (np_div (a * b * c) (minvec\<^sup>2))"
      "np_less (Fin c) (np_div (a * b * c) (minvec\<^sup>2))"
    and angles: "minangle < alpha" "alpha < pi - minangle" "minangle < beta"
      "beta < pi - minangle" "minangle < gamma" "gamma < pi - minangle"
    and ratios: "np_less (np_div a b) (Fin max_ratio)" "np_less (np_div a c) (Fin max_ratio)"
      "np_less (np_div b c) (Fin max_ratio)" "np_less (np_div b a) (Fin max_ratio)"
      "np_less (np_div c a) (Fin max_ratio)" "np_less (np_div c b) (Fin max_ratio)"
    and small: "min (a * cos (max beta gamma))
              (min (b * cos (max alpha gamma)) (c * cos (max alpha beta))) < minvec"
    by (simp_all add: accepted_def Let_def)
  have plain_max: "a < a * b * c / minvec\<^sup>2 \<and> b < a * b * c / minvec\<^sup>2 \<and> c < a * b * c / minvec\<^sup>2"
    if "minvec \<noteq> 0"
    using maxs that by (simp add: np_div_def)
  have plain_ratio: "a / b < max_ratio \<and> a / c < max_ratio \<and> b / c < max_ratio
            \<and> b / a < max_ratio \<and> c / a < max_ratio \<and> c / b < max_ratio"
    if "0 \<le> minvec"
  proof -
    from that vecs have "a \<noteq> 0" "b \<noteq> 0" "c \<noteq> 0" by simp_all
    then show ?thesis using ratios by (simp add: np_div_def)
  qed
  show ?thesis
    using vecs maxs angles ratios small plain_max plain_ratio by blast
qed

lemma root3_eight: "root 3 8 = 2"
  using real_root_power_cancel [of 3 2] by simp

theorem generate_lattice_accepted_witness:
  "generate_lattice 225 8 1 (pi / 6) 10 1
      (\<lambda>n. \<lparr>shear_draws = [], vector_draw = (0, 0, 0), gauss_draws = []\<rparr>)
     = Inr (Some (2, 2, 2, pi / 2, pi / 2, pi / 2))
   \<and> (1::real) < 2
   \<and> np_less (Fin 2) (np_div (2 * 2 * 2) (1\<^sup>2))
   \<and> pi / 6 < pi / 2 \<and> pi / 2 < pi - pi / 6
   \<and> np_less (np_div 2 2) (Fin 10)
   \<and> (2::real) < 2 * 2 * 2 / 1\<^sup>2
   \<and> (2::real) / 2 < 10"
proof -
  have ev: "generate_lattice 225 8 1 (pi / 6) 10 1
      (\<lambda>n. \<lparr>shear_draws = [], vector_draw = (0, 0, 0), gauss_draws = []\<rparr>)
     = Inr (Some (2, 2, 2, pi / 2, pi / 2, pi / 2))"
    by (simp add: generate_lattice_def sample_cell_def accepted_def np_div_def root3_eight)
  show ?thesis
    using ev generate_lattice_accepted [OF ev] by simp
qed

subsection \<open>choose_wyckoff picks a position that fits\<close>

lemma organized_Cons:
  "organized (g # ws) \<longleftrightarrow> g \<noteq> [] \<and> (\<forall>w\<in>set g. length w = length (hd g)) \<and> organized ws"
  by (simp add: organized_def list_all_iff)

lemma first_fit_organized:
  assumes "organized ws"
  shows "first_fit ws r =
           Inr (find (\<lambda>g. int (length (hd g)) \<le> r) ws)"
  using assms
proof (induction ws)
  case Nil
  show ?case by simp
next
  case (Cons g ws)
  from Cons.prems have ne: "g \<noteq> []" and ws: "organized ws"
    unfolding organized_Cons by blast+
  from ne obtain w0 rest where g: "g = w0 # rest" by (cases g) auto
  show ?case using Cons.IH [OF ws] by (simp add: g)
qed

lemma all_fits_organized:
  assumes "organized ws"
  shows "all_fits ws r good =
           Inr (good @ concat (filter (\<lambda>g. int (length (hd g)) \<le> r) ws))"
  using assms
proof (induction ws arbitrary: good)
  case Nil
  show ?case by simp
next
  case (Cons g ws)
  from Cons.prems have ne: "g \<noteq> []" and ws: "organized ws"
    unfolding organized_Cons by blast+
  from ne obtain w0 rest where g: "g = w0 # rest" by (cases g) auto
  show ?case using Cons.IH [OF ws] by (simp add: g)
qed


lemma organized_hd:
  "organized ws \<Longrightarrow> g \<in> set ws \<Longrightarrow> hd g \<in> set g"
  unfolding organized_def list_all_iff using hd_in_set by blast

lemma organized_length:
  "organized ws \<Longrightarrow> g \<in> set ws \<Longrightarrow> w \<in> set g \<Longrightarrow> length w = length (hd g)"
  unfolding organized_def list_all_iff by blast

lemma fits_iff:
  assumes "organized ws"
  shows "(\<exists>g\<in>set ws. \<exists>w\<in>set g. int (length w) \<le> r)
           \<longleftrightarrow> (\<exists>g\<in>set ws. int (length (hd g)) \<le> r)"
proof
  assume "\<exists>g\<in>set ws. \<exists>w\<in>set g. int (length w) \<le> r"
  then obtain g w where g: "g \<in> set ws" "w \<in> set g" "int (length w) \<le> r" by blast
  have "length w = length (hd g)" using assms g(1,2) by (rule organized_length)
  with g(3) have "int (length (hd g)) \<le> r" by simp
  with g(1) show "\<exists>g\<in>set ws. int (length (hd g)) \<le> r" by blast
next
  assume "\<exists>g\<in>set ws. int (length (hd g)) \<le> r"
  then obtain g where g: "g \<in> set ws" "int (length (hd g)) \<le> r" by blast
  have "hd g \<in> set g" using assms g(1) by (rule organized_hd)
  with g show "\<exists>g\<in>set ws. \<exists>w\<in>set g. int (length w) \<le> r" by blast
qed

lemma find_Some_member: "find P xs = Some x \<Longrightarrow> x \<in> set xs \<and> P x"
  by (induction xs) (simp_all split: if_splits)

lemma random_choice_member:
  "xs \<noteq> [] \<Longrightarrow> \<exists>x\<in>set xs. random_choice k xs = Inr x"
  by (simp add: random_choice_def)

lemma choose_wyckoff_first:
  assumes "organized ws" "u > 1 / 2"
  shows "(find (\<lambda>g. int (length (hd g)) \<le> r) ws = None \<and> choose_wyckoff ws r u k = Inr None)
       \<or> (\<exists>g w. g \<in> set ws \<and> w \<in> set g \<and> int (length (hd g)) \<le> r
                \<and> choose_wyckoff ws r u k = Inr (Some w))"
proof (cases "find (\<lambda>g. int (length (hd g)) \<le> r) ws")
  case None
  then have "choose_wyckoff ws r u k = Inr None"
    using assms(2) by (simp add: choose_wyckoff_def first_fit_organized [OF assms(1)])
  with None show ?thesis by simp
next
  case (Some g)
  then have g: "g \<in> set ws" "int (length (hd g)) \<le> r"
    using find_Some_member [of "\<lambda>g. int (length (hd g)) \<le> r" ws g] by simp_all
  have "hd g \<in> set g" using assms(1) g(1) by (rule organized_hd)
  then have "g \<noteq> []" by auto
  then obtain w where w: "w \<in> set g" "random_choice k g = Inr w"
    using random_choice_member by blast
  have "choose_wyckoff ws r u k = Inr (Some w)"
    using assms(2) Some w(2) by (simp add: choose_wyckoff_def first_fit_organized [OF assms(1)])
  with g w(1) show ?thesis by blast
qed

lemma choose_wyckoff_all:
  assumes "organized ws" "\<not> u > 1 / 2"
  shows "(concat (filter (\<lambda>g. int (length (hd g)) \<le> r) ws) = [] \<and> choose_wyckoff ws r u k = Inr None)
       \<or> (\<exists>g w. g \<in> set ws \<and> w \<in> set g \<and> int (length (hd g)) \<le> r
                \<and> choose_wyckoff ws r u k = Inr (Some w))"
proof (cases "concat (filter (\<lambda>g. int (length (hd g)) \<le> r) ws) = []")
  case True
  then have "choose_wyckoff ws r u k = Inr None"
    using assms(2) by (simp add: choose_wyckoff_def all_fits_organized [OF assms(1)])
  with True show ?thesis by simp
next
  case False
  then obtain w where w: "w \<in> set (concat (filter (\<lambda>g. int (length (hd g)) \<le> r) ws))"
      "random_choice k (concat (filter (\<lambda>g. int (length (hd g)) \<le> r) ws)) = Inr w"
    using random_choice_member by blast
  from w(1) obtain g where g: "g \<in> set ws" "int (length (hd g)) \<le> r" "w \<in> set g"
    unfolding set_concat set_filter by blast
  have "choose_wyckoff ws r u k = Inr (Some w)"
    using assms(2) False w(2) by (simp add: choose_wyckoff_def all_fits_organized [OF assms(1)])
  with g show ?thesis by blast
qed

lemma concat_filter_Nil:
  assumes "organized ws" "concat (filter P ws) = []"
  shows "\<not> (\<exists>g\<in>set ws. P g)"
proof
  assume "\<exists>g\<in>set ws. P g"
  then obtain g where g: "g \<in> set ws" "P g" by blast
  have "hd g \<in> set g" using assms(1) g(1) by (rule organized_hd)
  moreover have "g \<in> set (filter P ws)" using g by simp
  then have "g = []" using assms(2) by (simp only: concat_eq_Nil_conv)
  ultimately show False by simp
qed

lemma choose_wyckoff_cases:
  assumes "organized ws"
  shows "(\<not> (\<exists>g\<in>set ws. int (length (hd g)) \<le> r) \<and> choose_wyckoff ws r u k = Inr None)
       \<or> (\<exists>g w. g \<in> set ws \<and> w \<in> set g \<and> int (length (hd g)) \<le> r
                \<and> choose_wyckoff ws r u k = Inr (Some w))"
proof (cases "u > 1 / 2")
  case True
  have "\<not> (\<exists>g\<in>set ws. int (length (hd g)) \<le> r)"
    if "find (\<lambda>g. int (length (hd g)) \<le> r) ws = None"
    using that unfolding find_None_iff by blast
  with choose_wyckoff_first [OF assms True, of r k] show ?thesis
    by blast
next
  case False
  from choose_wyckoff_all [OF assms False, of r k] concat_filter_Nil [OF assms]
  show ?thesis by blast
qed

text \<open>
  C8: on an organized list, \<open>choose_wyckoff\<close> returns False exactly when no position has
  a multiplicity of at most \<open>r\<close>, and otherwise, whatever the draws \<open>u\<close> (the branch) and
  \<open>k\<close> (the choice) are, a position of the list of multiplicity at most \<open>r\<close>; it raises
  nothing.
\<close>

theorem choose_wyckoff_fits:
  assumes "organized wyckoffs"
  shows "(choose_wyckoff wyckoffs r u k = Inr None
            \<longleftrightarrow> \<not> (\<exists>g\<in>set wyckoffs. \<exists>w\<in>set g. int (length w) \<le> r))
       \<and> (\<forall>w. choose_wyckoff wyckoffs r u k = Inr (Some w)
            \<longrightarrow> int (length w) \<le> r \<and> (\<exists>g\<in>set wyckoffs. w \<in> set g))
       \<and> (\<exists>res. choose_wyckoff wyckoffs r u k = Inr res)"
proof -
  from choose_wyckoff_cases [OF assms, of r u k]
  consider (none) "\<not> (\<exists>g\<in>set wyckoffs. int (length (hd g)) \<le> r)"
        "choose_wyckoff wyckoffs r u k = Inr None"
    | (some) g w where "g \<in> set wyckoffs" "w \<in> set g" "int (length (hd g)) \<le> r"
        "choose_wyckoff wyckoffs r u k = Inr (Some w)"
    by blast
  then show ?thesis
  proof cases
    case none
    then show ?thesis using fits_iff [OF assms, of r] by simp
  next
    case some
    have len: "length w = length (hd g)" using assms some(1,2) by (rule organized_length)
    have fit: "\<exists>g\<in>set wyckoffs. int (length (hd g)) \<le> r" using some(1,3) by blast
    have "int (length w) \<le> r" using len some(3) by simp
    moreover have "\<exists>g\<in>set wyckoffs. w \<in> set g" using some(1,2) by blast
    ultimately show ?thesis using some(4) fit fits_iff [OF assms, of r] by simp
  qed
qed

theorem choose_wyckoff_fits_witness:
  "organized [[[0::nat, 1]], [[0], [1]]]
   \<and> choose_wyckoff [[[0::nat, 1]], [[0], [1]]] 1 (7 / 10) 5 = Inr (Some [1])
   \<and> int (length [1::nat]) \<le> 1
   \<and> (\<exists>w\<in>set [[0::nat], [1]]. int (length w) \<le> 1)"
proof -
  have org: "organized [[[0::nat, 1]], [[0], [1]]]"
    by (simp add: organized_def)
  have ev: "choose_wyckoff [[[0::nat, 1]], [[0], [1]]] 1 (7 / 10) 5 = Inr (Some [1])"
    by code_simp
  show ?thesis
    using org ev choose_wyckoff_fits [OF org, of 1 "7 / 10" 5] by simp
qed
subsection \<open>merge_coordinate makes progress\<close>

lemma vnorm_nonneg: "0 \<le> vnorm v"
  by (cases v) simp

lemma min_list_zero:
  fixes xs :: "real list"
  assumes "0 \<in> set xs" "\<forall>x\<in>set xs. 0 \<le> x"
  shows "min_list xs = 0"
proof -
  from assms(1) have ne: "xs \<noteq> []" by auto
  have "Min (set xs) = 0"
    using assms by (intro Min_eqI) auto
  with ne show ?thesis by (simp add: min_list_Min)
qed

lemma np_round_zero: "np_round 0 = 0"
  by (simp add: np_round_def)

lemma origin_image: "(0, 0, 0) \<in> set (create_matrix PBC)"
  by (simp add: create_matrix_def)

definition unit_cell :: mat3 where
  "unit_cell = ((1, 0, 0), (0, 1, 0), (0, 0, 1))"

lemma vecmat_unit: "vecmat v unit_cell = v"
  by (cases v) (simp add: unit_cell_def)

lemma distance_origin: "distance (0, 0, 0) unit_cell PBC = 0"
proof -
  have "distance (0, 0, 0) unit_cell PBC
          = min_list (map vnorm (map (\<lambda>m. vadd m (0, 0, 0)) (create_matrix PBC)))"
    by (simp add: distance_def np_round_zero vecmat_unit)
  also have "\<dots> = 0"
  proof (rule min_list_zero)
    have "vnorm (vadd (0, 0, 0) (0, 0, 0)) = 0" by simp
    then show "0 \<in> set (map vnorm (map (\<lambda>m. vadd m (0, 0, 0)) (create_matrix PBC)))"
      using origin_image [of PBC] by force
    show "\<forall>x\<in>set (map vnorm (map (\<lambda>m. vadd m (0, 0, 0)) (create_matrix PBC))). 0 \<le> x"
      by (auto simp: vnorm_nonneg)
  qed
  finally show ?thesis .
qed

lemma find_short_dist_twice_origin:
  "find_short_dist [(0, 0, 0), (0, 0, 0)] unit_cell 1 = ([(0, 1, 0)], [[1], [0]])"
  by (simp add: find_short_dist_def close_pairs_def distance_origin)

text \<open>
  C6: \<open>merge_coordinate\<close> terminates on every coordinate list. In the model it is a total
  function, accepted with the length of the list as the measure of its loop. The reason is
  stated here: when \<open>find_short_dist\<close> finds a pair, the graph has an edge,
  \<open>connected_components\<close> returns (raising nothing) fewer components than there are
  points, one of them with two points or more; so a turn of the loop that goes on does so
  with a strictly shorter list.
\<close>

theorem merge_coordinate_progress:
  "(\<forall>pairs graph. find_short_dist coor lattice tol = (pairs, graph) \<longrightarrow> pairs \<noteq> [] \<longrightarrow>
      (\<exists>groups. connected_components graph = Inr groups
          \<and> (\<exists>c\<in>set groups. 2 \<le> length c) \<and> length groups < length coor))
   \<and> (\<forall>merged. merge_turn cwp coor lattice wyckoff sg tol PBC = Merged merged
          \<longrightarrow> length merged < length coor)"
proof (intro conjI allI impI)
  fix pairs graph
  assume f: "find_short_dist coor lattice tol = (pairs, graph)" and ne: "pairs \<noteq> []"
  from find_short_dist_graph [OF f] ne obtain u v where
      len: "length graph = length coor" and rng: "in_range graph"
    and uv: "u < v" "v < length coor" "v \<in> set (graph ! u)" "u \<in> set (graph ! v)"
    by blast
  from uv(1,2) len have "u < length graph" "v < length graph" "u \<noteq> v" by simp_all
  from connected_components_edge [OF rng this uv(3,4)]
  obtain groups c where g: "connected_components graph = Inr groups"
    and c: "c \<in> set groups" "u \<in> set c" "v \<in> set c"
    and less: "length groups < length graph" by blast
  have "card {u, v} \<le> card (set c)" using c(2,3) by (intro card_mono) auto
  also have "\<dots> \<le> length c" by (rule card_length)
  finally have "2 \<le> length c" using \<open>u \<noteq> v\<close> by simp
  with g c(1) less len
  show "\<exists>groups. connected_components graph = Inr groups
          \<and> (\<exists>c\<in>set groups. 2 \<le> length c) \<and> length groups < length coor"
    by auto
next
  fix merged
  assume "merge_turn cwp coor lattice wyckoff sg tol PBC = Merged merged"
  then show "length merged < length coor" by (rule merge_turn_shorter)
qed

lemma components_pair: "connected_components [[Suc 0], [0]] = Inr [[Suc 0, 0]]"
  by (simp add: connected_components_def components_loop.simps add_neighbors_def upt_rec)

lemma images9: "create_matrix (Some 3) =
   [(- 1, - 1, 0), (- 1, 0, 0), (- 1, 1, 0), (0, - 1, 0), (0, 0, 0), (0, 1, 0),
    (1, - 1, 0), (1, 0, 0), (1, 1, 0)]"
  by (simp add: create_matrix_def)

lemma center_twice_origin:
  "get_center [(0, 0, 0), (0, 0, 0)] unit_cell (Some 3) = Inr (0, 0, 1 / 2)"
  by (simp add: get_center_def images9 np_round_zero nearest_image_def vecmat_unit argmin_def
                mean0_def center_axis_def upt_rec)

lemma merge_turn_twice_origin:
  "merge_turn (\<lambda>points sg. Inr (Some 0)) [(0, 0, 0), (0, 0, 0)] unit_cell [[[()]]] 1 1 (Some 3)
     = Merged [(0, 0, 1 / 2)]"
  by (simp add: merge_turn_def find_short_dist_twice_origin last_first_def components_pair
                center_twice_origin)

theorem merge_coordinate_progress_witness:
  "find_short_dist [(0, 0, 0), (0, 0, 0)] unit_cell 1 = ([(0, 1, 0)], [[1], [0]])
   \<and> (\<exists>groups. connected_components [[1], [0]] = Inr groups
         \<and> (\<exists>c\<in>set groups. 2 \<le> length c)
         \<and> length groups < length [(0, 0, 0), (0, 0, (0::real))])
   \<and> merge_turn (\<lambda>points sg. Inr (Some 0)) [(0, 0, 0), (0, 0, 0)] unit_cell [[[()]]] 1 1 (Some 3)
         = Merged [(0, 0, 1 / 2)]
   \<and> length [(0, 0, 1 / (2::real))] < length [(0, 0, 0), (0, 0, (0::real))]"
  using merge_coordinate_progress
          [of "[(0, 0, 0), (0, 0, 0)]" unit_cell 1 "\<lambda>points sg. Inr (Some 0)" "[[[()]]]" 1 "Some 3"]
        find_short_dist_twice_origin merge_turn_twice_origin
  by simp
subsection \<open>When merge_coordinate fails\<close>

lemma merge_turn_failure:
  assumes "close_pairs coor lattice tol \<noteq> []"
  shows "merge_turn cwp coor lattice wyckoff sg tol PBC = Return r \<longleftrightarrow>
           r = (coor, None) \<and> (no_way_to_merge wyckoff coor
                \<or> merged_not_recognized cwp coor lattice wyckoff sg tol PBC)"
proof -
  obtain pairs graph where f: "find_short_dist coor lattice tol = (pairs, graph)"
    by (cases "find_short_dist coor lattice tol")
  with assms have ne: "pairs \<noteq> []" using find_short_dist_pairs by blast
  show ?thesis
    using f ne
    by (auto simp: merge_turn_def no_way_to_merge_def merged_not_recognized_def
             split: sum.splits option.splits)
qed

lemma merge_turn_no_pairs:
  assumes "close_pairs coor lattice tol = []"
  shows "merge_turn cwp coor lattice wyckoff sg tol PBC =
           (case cwp coor sg of Inl e \<Rightarrow> Raise e | Inr index \<Rightarrow> Return (coor, index))"
proof -
  obtain pairs graph where f: "find_short_dist coor lattice tol = (pairs, graph)"
    by (cases "find_short_dist coor lattice tol")
  with assms have "pairs = []" using find_short_dist_pairs by blast
  with f show ?thesis by (simp add: merge_turn_def)
qed

lemma merge_turn_recognized:
  "merge_turn cwp coor lattice wyckoff sg tol PBC = Merged merged \<Longrightarrow>
     \<exists>index. cwp merged sg = Inr (Some index)"
  by (auto simp: merge_turn_def split: prod.splits if_splits sum.splits option.splits)

lemma merge_coordinate_unfold:
  "merge_coordinate cwp coor lattice wyckoff sg tol PBC =
     (case merge_turn cwp coor lattice wyckoff sg tol PBC of
        Merged merged \<Rightarrow> merge_coordinate cwp merged lattice wyckoff sg tol PBC
      | Return r \<Rightarrow> Inr r
      | Raise e \<Rightarrow> Inl e)"
  by (rule merge_coordinate.simps)

lemma merge_coordinate_failure_general:
  assumes "close_pairs coor lattice tol \<noteq> [] \<or> (\<exists>index. cwp coor sg = Inr (Some index))"
  shows "merge_coordinate cwp coor lattice wyckoff sg tol PBC = Inr (c, None) \<longleftrightarrow>
     (\<exists>n. merged_after cwp lattice wyckoff sg tol PBC n coor = Some c
          \<and> close_pairs c lattice tol \<noteq> []
          \<and> (no_way_to_merge wyckoff c
               \<or> merged_not_recognized cwp c lattice wyckoff sg tol PBC))"
  (is "?lhs coor \<longleftrightarrow> (\<exists>n. ?rhs n coor)")
  using assms
proof (induction cwp coor lattice wyckoff sg tol PBC rule: merge_coordinate.induct)
  case (1 cwp coor lattice wyckoff sg tol PBC)
  let ?fails = "\<lambda>c. close_pairs c lattice tol \<noteq> []
          \<and> (no_way_to_merge wyckoff c \<or> merged_not_recognized cwp c lattice wyckoff sg tol PBC)"
  have zero: "merged_after cwp lattice wyckoff sg tol PBC 0 coor = Some coor" by simp
  show ?case
  proof (cases "merge_turn cwp coor lattice wyckoff sg tol PBC")
    case (Merged merged)
    have pre: "close_pairs merged lattice tol \<noteq> [] \<or> (\<exists>index. cwp merged sg = Inr (Some index))"
      using merge_turn_recognized [OF Merged] by blast
    note ih = 1(1) [OF Merged pre]
    have lhs: "merge_coordinate cwp coor lattice wyckoff sg tol PBC
                 = merge_coordinate cwp merged lattice wyckoff sg tol PBC"
      by (subst merge_coordinate_unfold) (simp add: Merged)
    have not_here: "\<not> ?fails coor"
    proof
      assume "?fails coor"
      then have "merge_turn cwp coor lattice wyckoff sg tol PBC = Return (coor, None)"
        using merge_turn_failure [of coor lattice tol cwp wyckoff sg PBC "(coor, None)"] by blast
      with Merged show False by simp
    qed
    have step: "merged_after cwp lattice wyckoff sg tol PBC (Suc n) coor
                  = merged_after cwp lattice wyckoff sg tol PBC n merged" for n
      by (simp add: Merged)
    have "(\<exists>n. merged_after cwp lattice wyckoff sg tol PBC n coor = Some c \<and> ?fails c)
            \<longleftrightarrow> (\<exists>n. merged_after cwp lattice wyckoff sg tol PBC n merged = Some c \<and> ?fails c)"
    proof
      assume "\<exists>n. merged_after cwp lattice wyckoff sg tol PBC n coor = Some c \<and> ?fails c"
      then obtain n where n: "merged_after cwp lattice wyckoff sg tol PBC n coor = Some c" "?fails c"
        by blast
      show "\<exists>n. merged_after cwp lattice wyckoff sg tol PBC n merged = Some c \<and> ?fails c"
      proof (cases n)
        case 0
        with n zero have "c = coor" by simp
        with n(2) not_here show ?thesis by blast
      next
        case (Suc m)
        with n step [of m] show ?thesis by metis
      qed
    next
      assume "\<exists>n. merged_after cwp lattice wyckoff sg tol PBC n merged = Some c \<and> ?fails c"
      then obtain n where "merged_after cwp lattice wyckoff sg tol PBC n merged = Some c" "?fails c"
        by blast
      with step [of n] show "\<exists>n. merged_after cwp lattice wyckoff sg tol PBC n coor = Some c \<and> ?fails c"
        by metis
    qed
    with ih lhs show ?thesis by simp
  next
    case (Return r)
    have lhs: "merge_coordinate cwp coor lattice wyckoff sg tol PBC = Inr r"
      by (subst merge_coordinate_unfold) (simp add: Return)
    have later: "merged_after cwp lattice wyckoff sg tol PBC (Suc n) coor = None" for n
      by (simp add: Return)
    have rhs: "(\<exists>n. merged_after cwp lattice wyckoff sg tol PBC n coor = Some c \<and> ?fails c)
                 \<longleftrightarrow> c = coor \<and> ?fails coor"
    proof
      assume "\<exists>n. merged_after cwp lattice wyckoff sg tol PBC n coor = Some c \<and> ?fails c"
      then obtain n where n: "merged_after cwp lattice wyckoff sg tol PBC n coor = Some c" "?fails c"
        by blast
      show "c = coor \<and> ?fails coor"
      proof (cases n)
        case 0
        with n zero show ?thesis by simp
      next
        case (Suc m)
        with n(1) later [of m] show ?thesis by simp
      qed
    next
      assume "c = coor \<and> ?fails coor"
      with zero show "\<exists>n. merged_after cwp lattice wyckoff sg tol PBC n coor = Some c \<and> ?fails c"
        by blast
    qed
    show ?thesis
    proof (cases "close_pairs coor lattice tol = []")
      case True
      with 1(2) obtain index where "cwp coor sg = Inr (Some index)" by blast
      with Return merge_turn_no_pairs [OF True, of cwp wyckoff sg PBC]
      have "r = (coor, Some index)" by simp
      with lhs rhs True show ?thesis by simp
    next
      case False
      from merge_turn_failure [OF False, of cwp wyckoff sg PBC r] Return
      have "r = (coor, None)" "?fails coor" using False by simp_all
      with lhs rhs show ?thesis by auto
    qed
  next
    case (Raise e)
    have lhs: "merge_coordinate cwp coor lattice wyckoff sg tol PBC = Inl e"
      by (subst merge_coordinate_unfold) (simp add: Raise)
    have later: "merged_after cwp lattice wyckoff sg tol PBC (Suc n) coor = None" for n
      by (simp add: Raise)
    have not_here: "\<not> ?fails coor"
    proof
      assume "?fails coor"
      then have "merge_turn cwp coor lattice wyckoff sg tol PBC = Return (coor, None)"
        using merge_turn_failure [of coor lattice tol cwp wyckoff sg PBC "(coor, None)"] by blast
      with Raise show False by simp
    qed
    have "\<not> (\<exists>n. merged_after cwp lattice wyckoff sg tol PBC n coor = Some c \<and> ?fails c)"
    proof
      assume "\<exists>n. merged_after cwp lattice wyckoff sg tol PBC n coor = Some c \<and> ?fails c"
      then obtain n where n: "merged_after cwp lattice wyckoff sg tol PBC n coor = Some c" "?fails c"
        by blast
      show False
      proof (cases n)
        case 0
        with n zero have "c = coor" by simp
        with n(2) not_here show False by blast
      next
        case (Suc m)
        with n(1) later [of m] show False by simp
      qed
    qed
    with lhs show ?thesis by simp
  qed
qed

lemma close_pairs_twice_origin:
  "close_pairs [(0, 0, 0), (0, 0, 0)] unit_cell 1 = [(0, 1, 0)]"
  by (simp add: close_pairs_def distance_origin)

lemma close_pairs_single: "close_pairs [p] lattice tol = []"
  by (simp add: close_pairs_def)

lemma merge_rejects_small_orbit:
  "merge_coordinate (\<lambda>points sg. Inr (Some 0)) [(0, 0, 0), (0, 0, 0)] unit_cell
       [[[(), (), (), ()]], [[(), ()]]] 2 1 None
     = Inr ([(0, 0, 0), (0, 0, 0)], None)"
  by (subst merge_coordinate_unfold)
     (simp add: merge_turn_def find_short_dist_twice_origin last_first_def)

lemma merge_accepts_general_orbit:
  "merge_coordinate (\<lambda>points sg. Inr (Some 0)) [(0, 0, 0), (0, 0, 0)] unit_cell
       [[[(), ()]], [[()]]] 2 1 (Some 3)
     = Inr ([(0, 0, 1 / 2)], Some 0)"
proof -
  have first: "merge_turn (\<lambda>points sg. Inr (Some 0)) [(0, 0, 0), (0, 0, 0)] unit_cell
                  [[[(), ()]], [[()]]] 2 1 (Some 3) = Merged [(0, 0, 1 / 2)]"
    by (simp add: merge_turn_def find_short_dist_twice_origin last_first_def components_pair
                  center_twice_origin)
  have second: "merge_turn (\<lambda>points sg. Inr (Some 0)) [(0, 0, 1 / 2)] unit_cell
                  [[[(), ()]], [[()]]] 2 1 (Some 3) = Return ([(0, 0, 1 / 2)], Some 0)"
    by (simp add: merge_turn_no_pairs close_pairs_single)
  have "merge_coordinate (\<lambda>points sg. Inr (Some 0)) [(0, 0, 0), (0, 0, 0)] unit_cell
           [[[(), ()]], [[()]]] 2 1 (Some 3)
          = merge_coordinate (\<lambda>points sg. Inr (Some 0)) [(0, 0, 1 / 2)] unit_cell
              [[[(), ()]], [[()]]] 2 1 (Some 3)"
    by (subst merge_coordinate_unfold) (simp only: first turn.case)
  also have "\<dots> = Inr ([(0, 0, 1 / 2)], Some 0)"
    by (subst merge_coordinate_unfold) (simp only: second turn.case)
  finally show ?thesis .
qed

text \<open>
  C5, as stated, fails in both directions. An orbit of two coincident points in a group whose
  general position has four points and whose smallest position has two is rejected as
  impossible to merge, though it has not the multiplicity of the general position and no
  merged candidate was tested. And an orbit of two coincident points that has the
  multiplicity of the general position (two), in a group with a position of one point, is
  merged and accepted.
\<close>

theorem merge_failure_not_general_multiplicity:
  "merge_coordinate (\<lambda>points sg. Inr (Some 0)) [(0, 0, 0), (0, 0, 0)] unit_cell
       [[[(), (), (), ()]], [[(), ()]]] 2 1 None
     = Inr ([(0, 0, 0), (0, 0, 0)], None)
   \<and> close_pairs [(0, 0, 0), (0, 0, 0)] unit_cell 1 = [(0, 1, 0)]
   \<and> length [(0, 0, 0), (0, 0, (0::real))] \<noteq> length (hd (hd [[[(), (), (), ()]], [[(), ()]]]))
   \<and> merge_coordinate (\<lambda>points sg. Inr (Some 0)) [(0, 0, 0), (0, 0, 0)] unit_cell
       [[[(), ()]], [[()]]] 2 1 (Some 3)
     = Inr ([(0, 0, 1 / 2)], Some 0)
   \<and> length [(0, 0, 0), (0, 0, (0::real))] = length (hd (hd [[[(), ()]], [[()]]]))"
  by (simp add: merge_rejects_small_orbit merge_accepts_general_orbit close_pairs_twice_origin)

text \<open>
  C5, amended: given an orbit with a pair of points at a distance of at most \<open>tol\<close>,
  \<open>merge_coordinate\<close> returns failure (the coordinates \<open>c\<close> it holds and \<open>False\<close>)
  exactly when, after some number of turns that merged, the orbit \<open>c\<close> still has such a
  pair and either has no more points than the first position of the last group of the
  organized list (the smallest multiplicity), or its merged candidate is not recognized
  as a Wyckoff position.
\<close>

theorem merge_coordinate_failure:
  assumes "close_pairs coor lattice tol \<noteq> []"
  shows "merge_coordinate cwp coor lattice wyckoff sg tol PBC = Inr (c, None) \<longleftrightarrow>
     (\<exists>n. merged_after cwp lattice wyckoff sg tol PBC n coor = Some c
          \<and> close_pairs c lattice tol \<noteq> []
          \<and> (no_way_to_merge wyckoff c
               \<or> merged_not_recognized cwp c lattice wyckoff sg tol PBC))"
  using assms by (intro merge_coordinate_failure_general) simp

theorem merge_coordinate_failure_witness:
  "close_pairs [(0, 0, 0), (0, 0, 0)] unit_cell 1 \<noteq> []
   \<and> merge_coordinate (\<lambda>points sg. Inr (Some 0)) [(0, 0, 0), (0, 0, 0)] unit_cell
       [[[(), (), (), ()]], [[(), ()]]] 2 1 None
     = Inr ([(0, 0, 0), (0, 0, 0)], None)
   \<and> (\<exists>n. merged_after (\<lambda>points sg. Inr (Some 0)) unit_cell [[[(), (), (), ()]], [[(), ()]]]
              2 1 None n [(0, 0, 0), (0, 0, 0)] = Some [(0, 0, 0), (0, 0, 0)]
          \<and> no_way_to_merge [[[(), (), (), ()]], [[(), ()]]] [(0, 0, 0), (0, 0, (0::real))])"
proof -
  have pairs: "close_pairs [(0, 0, 0), (0, 0, 0)] unit_cell 1 \<noteq> []"
    by (simp add: close_pairs_twice_origin)
  have "merged_after (\<lambda>points sg. Inr (Some 0)) unit_cell [[[(), (), (), ()]], [[(), ()]]]
              2 1 None 0 [(0, 0, 0), (0, 0, 0)] = Some [(0, 0, 0), (0, 0, 0)]
          \<and> no_way_to_merge [[[(), (), (), ()]], [[(), ()]]] [(0, 0, 0), (0, 0, (0::real))]"
    by (simp add: no_way_to_merge_def last_first_def)
  then have ex: "\<exists>n. merged_after (\<lambda>points sg. Inr (Some 0)) unit_cell [[[(), (), (), ()]], [[(), ()]]]
              2 1 None n [(0, 0, 0), (0, 0, 0)] = Some [(0, 0, 0), (0, 0, 0)]
          \<and> no_way_to_merge [[[(), (), (), ()]], [[(), ()]]] [(0, 0, 0), (0, 0, (0::real))]"
    by blast
  from merge_coordinate_failure [OF pairs, of "\<lambda>points sg. Inr (Some 0)"
         "[[[(), (), (), ()]], [[(), ()]]]" 2 None "[(0, 0, 0), (0, 0, 0)]"] pairs ex
  show ?thesis by blast
qed

end
